theory Spec2Isabelle
  imports Main "HOL-Library.AList"
begin

section \<open>Values shared by the services\<close>

text \<open>
  Every failure in the services is a JavaScript \<^verbatim>\<open>Error\<close> carrying a message
  (\<^verbatim>\<open>throw new Error('...')\<close>, or an error of a library rethrown as it is);
  the sources declare no error subclass. A rejected promise is \<open>Inl\<close> of the error, a
  fulfilled one \<open>Inr\<close> of its value.
\<close>

datatype error = Error string

fun message :: "error \<Rightarrow> string" where
  "message (Error m) = m"

type_synonym bytes = "nat list"

text \<open>The logger (\<^verbatim>\<open>utils/logger.ts\<close>): level, component tag, message.\<close>

datatype level = Info | Warn | Failure

type_synonym log_entry = "level \<times> string \<times> string"

text \<open>Decimal rendering of a number inside a template string.\<close>

fun show_nat :: "nat \<Rightarrow> string" where
  "show_nat n =
     (if n < 10 then [''0123456789'' ! n]
      else show_nat (n div 10) @ [''0123456789'' ! (n mod 10)])"

declare show_nat.simps [simp del]

text \<open>
  JavaScript truthiness of an optional string (\<^verbatim>\<open>!folderId\<close>,
  \<^verbatim>\<open>a || b\<close>): \<^verbatim>\<open>undefined\<close> and the empty string are falsy.
\<close>

fun truthy :: "string option \<Rightarrow> bool" where
  "truthy None = False"
| "truthy (Some s) = (s \<noteq> [])"

definition or_else :: "string option \<Rightarrow> string option \<Rightarrow> string option" where
  "or_else a b = (if truthy a then a else b)"

section \<open>Data model (\<^verbatim>\<open>types/index.ts\<close>)\<close>

record file_info =
  name_fi :: "string option"
  alternativeText_fi :: "string option"
  caption_fi :: "string option"
  folder_fi :: "string option"

text \<open>A derived variant recorded under \<^verbatim>\<open>formats\<close>.\<close>

record format_desc =
  name_v :: string
  hash_v :: string
  ext_v :: string
  mime_v :: string
  width_v :: nat
  height_v :: nat
  size_v :: nat

text \<open>
  \<^verbatim>\<open>UploadableFile\<close>. The timestamps are left out: no operation below reads
  them. \<^verbatim>\<open>size\<close> and \<^verbatim>\<open>id\<close> carry a suffix.
\<close>

record uploadable =
  id_f :: "string option"
  name :: string
  alternativeText :: "string option"
  caption :: "string option"
  folder :: "string option"
  folderPath :: "string option"
  hash :: string
  ext :: string
  mime :: string
  size_f :: nat
  url :: "string option"
  previewUrl :: "string option"
  provider :: string
  provider_metadata :: "(string \<times> string) list option"
  tmpWorkingDirectory :: "string option"
  filepath :: "string option"
  width :: "nat option"
  height :: "nat option"
  formats :: "(string \<times> format_desc) list option"

text \<open>\<^verbatim>\<open>FileFolder\<close>, without timestamps and the unused \<^verbatim>\<open>children\<close>.\<close>

record file_folder =
  id_d :: string
  name_d :: string
  path_d :: string
  parent_d :: "string option"

text \<open>\<^verbatim>\<open>Express.Multer.File\<close>: the fields the services read.\<close>

record multer_file =
  originalname :: string
  mimetype :: string
  size_m :: nat
  path_m :: string

text \<open>
  \<^verbatim>\<open>ProcessingOptions\<close> and \<^verbatim>\<open>ValidationOptions\<close>; an absent field is
  \<open>None\<close>, so the empty object has every field \<open>None\<close>. The unused
  \<^verbatim>\<open>formats\<close> option is left out.
\<close>

record processing_options =
  quality_po :: "nat option"
  progressive_po :: "bool option"
  responsive_po :: "bool option"
  breakpoints_po :: "nat list option"

record validation_options =
  maxFileSize_vo :: "nat option"
  allowedTypes_vo :: "string list option"
  allowedExtensions_vo :: "string list option"
  maxWidth_vo :: "nat option"
  maxHeight_vo :: "nat option"

section \<open>The image library (\<^verbatim>\<open>sharp\<close>) as the services call it\<close>

datatype fit = Cover | Contain | Fill | Inside | Outside

record resize_options =
  width_r :: "nat option"
  height_r :: "nat option"
  fit_r :: fit
  withoutEnlargement :: bool

text \<open>The encoder chosen on the transformer before \<^verbatim>\<open>toBuffer\<close>.\<close>

datatype encoder =
    Jpeg nat bool
  | Png nat bool
  | Webp nat
  | Tiff nat
  | Avif nat

datatype pipeline = Plain | Resize resize_options | Encode encoder

record output_info =
  width_i :: nat
  height_i :: nat
  size_i :: nat

record sharp_metadata =
  width_md :: "nat option"
  height_md :: "nat option"

type_synonym sharp_output = "bytes \<times> output_info"

section \<open>Environment and state\<close>

text \<open>The operations of the metadata store, as keys of its fault table.\<close>

datatype db_op =
    File_create string
  | File_findUnique string
  | File_update string
  | File_delete string
  | File_count string
  | Folder_create string
  | Folder_findUnique string
  | Folder_count string
  | Folder_delete string

text \<open>
  What the services take from outside the sources: the constants of
  \<^verbatim>\<open>@/config\<close> (the module is not among the sources, so its values are
  parameters), the image library (what it decodes from the bytes of a file and what a
  pipeline yields), the functions of Node's \<^verbatim>\<open>path\<close>, \<^verbatim>\<open>os\<close>
  and of \<^verbatim>\<open>mime-types\<close>, the source of random strings (\<^verbatim>\<open>uuidv4\<close>,
  \<^verbatim>\<open>mkdtemp\<close>, the store's generated ids), and the failures of the file
  system and of the store's connection.
\<close>

record env =
  MAX_FILE_SIZE :: nat
  ALLOWED_TYPES :: "string list"
  IMAGE_QUALITY :: nat
  IMAGE_PROGRESSIVE :: bool
  GENERATE_THUMBNAILS :: bool
  RESPONSIVE_BREAKPOINTS :: "nat list"
  STORAGE_PROVIDER :: string
  sharp_decode :: "bytes \<Rightarrow> error + sharp_metadata"
  sharp_toBuffer :: "bytes \<Rightarrow> pipeline \<Rightarrow> error + sharp_output"
  path_extname :: "string \<Rightarrow> string"
  path_basename :: "string \<Rightarrow> string \<Rightarrow> string"
  str_normalize :: "string \<Rightarrow> string"
  mime_extension :: "string \<Rightarrow> string option"
  tmpdir :: string
  entropy :: "nat \<Rightarrow> string"
  mkdtemp_fault :: "string \<Rightarrow> error option"
  remove_fault :: "string \<Rightarrow> error option"
  prisma_fault :: "db_op \<Rightarrow> error option"

text \<open>
  The state the services act on: the two tables of the metadata store, the state of the
  storage backend (of a type the provider chooses), the contents of the files on the
  local disk, the directories made by \<^verbatim>\<open>mkdtemp\<close>, the log, and the
  position in the stream of random strings.
\<close>

record 'b world =
  files :: "uploadable list"
  folders :: "file_folder list"
  backend :: 'b
  disk :: "(string \<times> bytes) list"
  dirs :: "string list"
  logs :: "log_entry list"
  seed :: nat

definition log :: "level \<Rightarrow> string \<Rightarrow> string \<Rightarrow> 'b world \<Rightarrow> 'b world" where
  "log l c m w = w\<lparr>logs := logs w @ [(l, c, m)]\<rparr>"

definition draw :: "env \<Rightarrow> 'b world \<Rightarrow> string \<times> 'b world" where
  "draw E w = (entropy E (seed w), w\<lparr>seed := Suc (seed w)\<rparr>)"

section \<open>The metadata store\<close>

text \<open>
  Modelled from the spec: the Prisma schema and the generated client are not among the
  sources. The store is two tables; a row is found by its id, \<^verbatim>\<open>create\<close>
  gives the row a generated id and is refused when that id is taken,
  \<^verbatim>\<open>delete\<close> and \<^verbatim>\<open>update\<close> are refused when no row has the id, and
  any call is rejected when the connection fails (\<open>prisma_fault\<close>).
\<close>

definition prisma_folder_findUnique ::
  "env \<Rightarrow> string \<Rightarrow> 'b world \<Rightarrow> error + file_folder option" where
  "prisma_folder_findUnique E i w =
     (case prisma_fault E (Folder_findUnique i) of
        Some e \<Rightarrow> Inl e
      | None \<Rightarrow> Inr (find (\<lambda>f. id_d f = i) (folders w)))"

definition prisma_folder_count :: "env \<Rightarrow> string \<Rightarrow> 'b world \<Rightarrow> error + nat" where
  "prisma_folder_count E i w =
     (case prisma_fault E (Folder_count i) of
        Some e \<Rightarrow> Inl e
      | None \<Rightarrow> Inr (length (filter (\<lambda>f. parent_d f = Some i) (folders w))))"

definition prisma_file_count :: "env \<Rightarrow> string \<Rightarrow> 'b world \<Rightarrow> error + nat" where
  "prisma_file_count E i w =
     (case prisma_fault E (File_count i) of
        Some e \<Rightarrow> Inl e
      | None \<Rightarrow> Inr (length (filter (\<lambda>f. folder f = Some i) (files w))))"

definition prisma_folder_delete ::
  "env \<Rightarrow> string \<Rightarrow> 'b world \<Rightarrow> (error + unit) \<times> 'b world" where
  "prisma_folder_delete E i w =
     (case prisma_fault E (Folder_delete i) of
        Some e \<Rightarrow> (Inl e, w)
      | None \<Rightarrow>
          (if find (\<lambda>f. id_d f = i) (folders w) = None
           then (Inl (Error ''Record to delete does not exist.''), w)
           else (Inr (), w\<lparr>folders := filter (\<lambda>f. id_d f \<noteq> i) (folders w)\<rparr>)))"

definition prisma_folder_create ::
  "env \<Rightarrow> string \<Rightarrow> string \<Rightarrow> string option \<Rightarrow> 'b world
     \<Rightarrow> (error + file_folder) \<times> 'b world" where
  "prisma_folder_create E n p par w =
     (case prisma_fault E (Folder_create n) of
        Some e \<Rightarrow> (Inl e, w)
      | None \<Rightarrow>
          (case draw E w of
             (i, w1) \<Rightarrow>
               (if find (\<lambda>f. id_d f = i) (folders w1) \<noteq> None
                then (Inl (Error ''Unique constraint failed on the fields: (`id`)''), w1)
                else
                  (let row = \<lparr>id_d = i, name_d = n, path_d = p, parent_d = par\<rparr>
                   in (Inr row, w1\<lparr>folders := folders w1 @ [row]\<rparr>)))))"

section \<open>\<^verbatim>\<open>DatabaseService\<close>: folders\<close>

text \<open>\<^verbatim>\<open>parent: folder.parent || undefined\<close>\<close>

definition folder_of_row :: "file_folder \<Rightarrow> file_folder" where
  "folder_of_row f = f\<lparr>parent_d := or_else (parent_d f) None\<rparr>"

definition getFolder ::
  "env \<Rightarrow> string \<Rightarrow> 'b world \<Rightarrow> (error + file_folder option) \<times> 'b world" where
  "getFolder E i w =
     (case prisma_folder_findUnique E i w of
        Inl e \<Rightarrow>
          (Inl e, log Failure ''DatabaseService'' ''Failed to get folder from database'' w)
      | Inr None \<Rightarrow> (Inr None, w)
      | Inr (Some f) \<Rightarrow> (Inr (Some (folder_of_row f)), w))"

definition createFolder ::
  "env \<Rightarrow> string \<Rightarrow> string option \<Rightarrow> 'b world \<Rightarrow> (error + file_folder) \<times> 'b world" where
  "createFolder E n par w =
     (let failed = (\<lambda>e w'.
            (Inl e, log Failure ''DatabaseService'' ''Failed to create folder in database'' w'))
      in
      case (case par of
              Some pid \<Rightarrow> if pid \<noteq> [] then getFolder E pid w else (Inr None, w)
            | None \<Rightarrow> (Inr None, w)) of
        (Inl e, w1) \<Rightarrow> failed e w1
      | (Inr parentFolder, w1) \<Rightarrow>
          (let p = (case parentFolder of
                      Some pf \<Rightarrow> path_d pf @ ''/'' @ n
                    | None \<Rightarrow> ''/'' @ n)
           in case prisma_folder_create E n p par w1 of
                (Inl e, w2) \<Rightarrow> failed e w2
              | (Inr row, w2) \<Rightarrow> (Inr (folder_of_row row), w2)))"

definition deleteFolder :: "env \<Rightarrow> string \<Rightarrow> 'b world \<Rightarrow> (error + bool) \<times> 'b world" where
  "deleteFolder E i w =
     (let failed = (\<lambda>e w'.
            (Inl e, log Failure ''DatabaseService'' ''Failed to delete folder from database'' w'))
      in
      case prisma_file_count E i w of
        Inl e \<Rightarrow> failed e w
      | Inr filesCount \<Rightarrow>
          (if filesCount > 0
           then failed (Error ''Cannot delete folder that contains files'') w
           else
             (case prisma_folder_count E i w of
                Inl e \<Rightarrow> failed e w
              | Inr subFoldersCount \<Rightarrow>
                  (if subFoldersCount > 0
                   then failed (Error ''Cannot delete folder that contains subfolders'') w
                   else
                     (case prisma_folder_delete E i w of
                        (Inl e, w1) \<Rightarrow> failed e w1
                      | (Inr u, w1) \<Rightarrow> (Inr True, w1))))))"

section \<open>\<^verbatim>\<open>DatabaseService\<close>: files\<close>

definition prisma_file_findUnique ::
  "env \<Rightarrow> string \<Rightarrow> 'b world \<Rightarrow> error + uploadable option" where
  "prisma_file_findUnique E i w =
     (case prisma_fault E (File_findUnique i) of
        Some e \<Rightarrow> Inl e
      | None \<Rightarrow> Inr (find (\<lambda>f. id_f f = Some i) (files w)))"

definition prisma_file_create ::
  "env \<Rightarrow> uploadable \<Rightarrow> 'b world \<Rightarrow> (error + uploadable) \<times> 'b world" where
  "prisma_file_create E d w =
     (case prisma_fault E (File_create (hash d)) of
        Some e \<Rightarrow> (Inl e, w)
      | None \<Rightarrow>
          (case draw E w of
             (i, w1) \<Rightarrow>
               (if find (\<lambda>f. id_f f = Some i) (files w1) \<noteq> None
                then (Inl (Error ''Unique constraint failed on the fields: (`id`)''), w1)
                else
                  (let row = d\<lparr>id_f := Some i\<rparr>
                   in (Inr row, w1\<lparr>files := files w1 @ [row]\<rparr>)))))"

definition prisma_file_delete ::
  "env \<Rightarrow> string \<Rightarrow> 'b world \<Rightarrow> (error + unit) \<times> 'b world" where
  "prisma_file_delete E i w =
     (case prisma_fault E (File_delete i) of
        Some e \<Rightarrow> (Inl e, w)
      | None \<Rightarrow>
          (if find (\<lambda>f. id_f f = Some i) (files w) = None
           then (Inl (Error ''Record to delete does not exist.''), w)
           else (Inr (), w\<lparr>files := filter (\<lambda>f. id_f f \<noteq> Some i) (files w)\<rparr>)))"

text \<open>
  \<^verbatim>\<open>saveFile\<close> writes the listed columns (not \<^verbatim>\<open>tmpWorkingDirectory\<close>,
  not \<^verbatim>\<open>filepath\<close>) and maps the created row back; the JSON columns are
  written and parsed again, which gives back the value written.
\<close>

definition saveFile ::
  "env \<Rightarrow> uploadable \<Rightarrow> 'b world \<Rightarrow> (error + uploadable) \<times> 'b world" where
  "saveFile E file w =
     (case prisma_file_create E
             (file\<lparr>id_f := None, tmpWorkingDirectory := None, filepath := None\<rparr>) w of
        (Inl e, w1) \<Rightarrow>
          (Inl e, log Failure ''DatabaseService'' ''Failed to save file to database'' w1)
      | (Inr savedFile, w1) \<Rightarrow> (Inr savedFile, w1))"

definition getFile ::
  "env \<Rightarrow> string \<Rightarrow> 'b world \<Rightarrow> (error + uploadable option) \<times> 'b world" where
  "getFile E i w =
     (case prisma_file_findUnique E i w of
        Inl e \<Rightarrow>
          (Inl e, log Failure ''DatabaseService'' ''Failed to get file from database'' w)
      | Inr file \<Rightarrow> (Inr file, w))"

definition DatabaseService_deleteFile ::
  "env \<Rightarrow> string \<Rightarrow> 'b world \<Rightarrow> (error + bool) \<times> 'b world" where
  "DatabaseService_deleteFile E i w =
     (case prisma_file_delete E i w of
        (Inl e, w1) \<Rightarrow>
          (Inl e, log Failure ''DatabaseService'' ''Failed to delete file from database'' w1)
      | (Inr u, w1) \<Rightarrow> (Inr True, w1))"

section \<open>The storage provider\<close>

text \<open>
  \<^verbatim>\<open>StorageProvider\<close> (\<^verbatim>\<open>types/index.ts\<close>): the capability the upload
  service calls through \<^verbatim>\<open>StorageProviderService\<close>, which picks one
  implementation from the configuration and forwards to it. \<open>upload\<close> reads the
  file from the local disk, acts on the backend, and on success returns the entity with
  \<^verbatim>\<open>url\<close> and \<^verbatim>\<open>provider_metadata\<close> set; \<open>delete\<close> acts on the
  backend. Both may be rejected. The log lines the implementations write themselves
  are left out.
\<close>

record 'b storage_provider =
  provider_name :: string
  upload :: "(string \<times> bytes) list \<Rightarrow> uploadable \<Rightarrow> 'b \<Rightarrow> (error + uploadable) \<times> 'b"
  delete :: "uploadable \<Rightarrow> 'b \<Rightarrow> (error + unit) \<times> 'b"

definition StorageProviderService_upload ::
  "'b storage_provider \<Rightarrow> uploadable \<Rightarrow> 'b world \<Rightarrow> (error + uploadable) \<times> 'b world" where
  "StorageProviderService_upload P file w =
     (case upload P (disk w) file (backend w) of
        (r, b) \<Rightarrow> (r, w\<lparr>backend := b\<rparr>))"

definition StorageProviderService_delete ::
  "'b storage_provider \<Rightarrow> uploadable \<Rightarrow> 'b world \<Rightarrow> (error + unit) \<times> 'b world" where
  "StorageProviderService_delete P file w =
     (case delete P file (backend w) of
        (r, b) \<Rightarrow> (r, w\<lparr>backend := b\<rparr>))"

section \<open>\<^verbatim>\<open>ImageProcessingService\<close>\<close>

definition FORMATS_TO_PROCESS :: "string list" where
  "FORMATS_TO_PROCESS = [''jpeg'', ''png'', ''webp'', ''tiff'', ''svg'', ''gif'', ''avif'']"

definition FORMATS_TO_OPTIMIZE :: "string list" where
  "FORMATS_TO_OPTIMIZE = [''jpeg'', ''png'', ''webp'', ''tiff'', ''avif'']"

definition isOptimizableFormat :: "string \<Rightarrow> bool" where
  "isOptimizableFormat format = (format \<in> set FORMATS_TO_OPTIMIZE)"

text \<open>\<^verbatim>\<open>sharp(file.filepath)\<close> with a pipeline, run by \<^verbatim>\<open>toBuffer\<close>.\<close>

definition sharp_run :: "env \<Rightarrow> 'b world \<Rightarrow> string \<Rightarrow> pipeline \<Rightarrow> error + sharp_output" where
  "sharp_run E w p pl =
     (case map_of (disk w) p of
        None \<Rightarrow> Inl (Error (''Input file is missing: '' @ p))
      | Some bs \<Rightarrow> sharp_toBuffer E bs pl)"

definition sharp_read_metadata :: "env \<Rightarrow> 'b world \<Rightarrow> string \<Rightarrow> error + sharp_metadata" where
  "sharp_read_metadata E w p =
     (case map_of (disk w) p of
        None \<Rightarrow> Inl (Error (''Input file is missing: '' @ p))
      | Some bs \<Rightarrow> sharp_decode E bs)"

definition getMetadata ::
  "env \<Rightarrow> uploadable \<Rightarrow> 'b world \<Rightarrow> (error + sharp_metadata) \<times> 'b world" where
  "getMetadata E file w =
     (case filepath file of
        None \<Rightarrow> (Inl (Error ''File path is required for metadata extraction''), w)
      | Some p \<Rightarrow>
          (if p = [] then (Inl (Error ''File path is required for metadata extraction''), w)
           else
             (case sharp_read_metadata E w p of
                Inl e \<Rightarrow>
                  (Inl (Error ''Failed to extract image metadata''),
                   log Failure ''ImageProcessingService'' ''Failed to extract metadata'' w)
              | Inr md \<Rightarrow> (Inr md, w))))"

text \<open>
  \<^verbatim>\<open>options.quality || CONFIG.IMAGE_QUALITY\<close>: a quality of 0 is falsy.
  \<^verbatim>\<open>file.ext.replace('.', '')\<close> removes the first dot.
\<close>

definition optimizeImage ::
  "env \<Rightarrow> uploadable \<Rightarrow> nat option \<Rightarrow> bool option \<Rightarrow> string option \<Rightarrow> 'b world
     \<Rightarrow> error + sharp_output" where
  "optimizeImage E file q pr fmt w =
     (case filepath file of
        None \<Rightarrow> Inl (Error ''File path is required for optimization'')
      | Some p \<Rightarrow>
          (if p = [] then Inl (Error ''File path is required for optimization'')
           else
             (let quality = (case q of
                               Some n \<Rightarrow> if n \<noteq> 0 then n else IMAGE_QUALITY E
                             | None \<Rightarrow> IMAGE_QUALITY E);
                  progressive = (case pr of Some b \<Rightarrow> b | None \<Rightarrow> IMAGE_PROGRESSIVE E);
                  format = (case fmt of
                              Some f \<Rightarrow> if f \<noteq> [] then f else remove1 (CHR ''.'') (ext file)
                            | None \<Rightarrow> remove1 (CHR ''.'') (ext file));
                  transformer =
                    (if isOptimizableFormat format
                     then (if format = ''jpeg'' then Encode (Jpeg quality progressive)
                           else if format = ''png'' then Encode (Png quality progressive)
                           else if format = ''webp'' then Encode (Webp quality)
                           else if format = ''tiff'' then Encode (Tiff quality)
                           else if format = ''avif'' then Encode (Avif quality)
                           else Plain)
                     else Plain)
              in sharp_run E w p transformer)))"

definition resizeImage ::
  "env \<Rightarrow> uploadable \<Rightarrow> nat option \<Rightarrow> nat option \<Rightarrow> fit option \<Rightarrow> bool option \<Rightarrow> 'b world
     \<Rightarrow> error + sharp_output" where
  "resizeImage E file wd ht ft woe w =
     (case filepath file of
        None \<Rightarrow> Inl (Error ''File path is required for resizing'')
      | Some p \<Rightarrow>
          (if p = [] then Inl (Error ''File path is required for resizing'')
           else
             (let resizeOptions =
                    \<lparr>width_r = wd, height_r = ht,
                     fit_r = (case ft of Some f \<Rightarrow> f | None \<Rightarrow> Cover),
                     withoutEnlargement = (case woe of Some b \<Rightarrow> b | None \<Rightarrow> True)\<rparr>
              in sharp_run E w p (Resize resizeOptions))))"

definition generateThumbnail ::
  "env \<Rightarrow> uploadable \<Rightarrow> nat option \<Rightarrow> 'b world \<Rightarrow> error + sharp_output" where
  "generateThumbnail E file sz w =
     (let size = (case sz of Some n \<Rightarrow> n | None \<Rightarrow> 150)
      in resizeImage E file (Some size) (Some size) (Some Cover) None w)"

text \<open>
  The loop of \<^verbatim>\<open>generateResponsiveImages\<close>: the accumulator is the object
  \<^verbatim>\<open>responsive\<close>, whose keys keep the order of their first assignment.
\<close>

fun generateResponsiveImages_loop ::
  "env \<Rightarrow> uploadable \<Rightarrow> nat list \<Rightarrow> (string \<times> sharp_output) list \<Rightarrow> 'b world
     \<Rightarrow> (string \<times> sharp_output) list \<times> 'b world" where
  "generateResponsiveImages_loop E file [] responsive w = (responsive, w)"
| "generateResponsiveImages_loop E file (breakpoint # rest) responsive w =
     (case resizeImage E file (Some breakpoint) None None (Some True) w of
        Inr result \<Rightarrow>
          generateResponsiveImages_loop E file rest
            (AList.update (''w'' @ show_nat breakpoint) result responsive) w
      | Inl e \<Rightarrow>
          generateResponsiveImages_loop E file rest responsive
            (log Warn ''ImageProcessingService'' ''Failed to generate responsive image'' w))"

definition generateResponsiveImages ::
  "env \<Rightarrow> uploadable \<Rightarrow> nat list option \<Rightarrow> 'b world
     \<Rightarrow> (string \<times> sharp_output) list \<times> 'b world" where
  "generateResponsiveImages E file bps w =
     generateResponsiveImages_loop E file
       (case bps of Some l \<Rightarrow> l | None \<Rightarrow> RESPONSIVE_BREAKPOINTS E) [] w"

text \<open>
  The key under which a breakpoint is stored, and the resize attempted for it in a
  state (the call inside the loop's \<^verbatim>\<open>try\<close>).
\<close>

definition breakpoint_key :: "nat \<Rightarrow> string" where
  "breakpoint_key bp = ''w'' @ show_nat bp"

definition breakpoint_result ::
  "env \<Rightarrow> uploadable \<Rightarrow> 'b world \<Rightarrow> nat \<Rightarrow> error + sharp_output" where
  "breakpoint_result E file w bp = resizeImage E file (Some bp) None None (Some True) w"

text \<open>
  What \<^verbatim>\<open>processImage\<close> returns: a partial entity in which only
  \<^verbatim>\<open>formats\<close> and \<^verbatim>\<open>size\<close> can be present.
\<close>

record processed =
  formats_p :: "(string \<times> format_desc) list option"
  size_p :: "nat option"

definition startsWith :: "string \<Rightarrow> string \<Rightarrow> bool" where
  "startsWith s p = (take (length p) s = p)"

text \<open>The descriptor stored under a key of \<^verbatim>\<open>formats\<close>.\<close>

definition descriptor :: "string \<Rightarrow> uploadable \<Rightarrow> output_info \<Rightarrow> format_desc" where
  "descriptor key file info =
     \<lparr>name_v = key @ ''_'' @ name file, hash_v = key @ ''_'' @ hash file,
      ext_v = ext file, mime_v = mime file,
      width_v = width_i info, height_v = height_i info, size_v = size_i info\<rparr>"

definition processImage ::
  "env \<Rightarrow> uploadable \<Rightarrow> processing_options \<Rightarrow> 'b world \<Rightarrow> (error + processed) \<times> 'b world" where
  "processImage E file options w =
     (if \<not> startsWith (mime file) ''image/''
      then (Inr \<lparr>formats_p = None, size_p = None\<rparr>, w)
      else
        (let format = remove1 (CHR ''.'') (ext file) in
         if format \<notin> set FORMATS_TO_PROCESS
         then (Inr \<lparr>formats_p = None, size_p = None\<rparr>,
               log Info ''ImageProcessingService''
                 ''Skipping processing for unsupported format'' w)
         else
           (let failed = (\<lambda>e w'.
                  (Inl (Error (''Image processing failed: '' @ message e)),
                   log Failure ''ImageProcessingService'' ''Image processing failed'' w'))
            in
            case (if GENERATE_THUMBNAILS E
                  then (case generateThumbnail E file None w of
                          Inl e \<Rightarrow> Inl e
                        | Inr thumbnail \<Rightarrow>
                            Inr [(''thumbnail'', descriptor ''thumbnail'' file (snd thumbnail))])
                  else Inr []) of
              Inl e \<Rightarrow> failed e w
            | Inr formats1 \<Rightarrow>
                (case (if responsive_po options \<noteq> Some False
                       then
                         (let breakpoints = (case breakpoints_po options of
                                               Some l \<Rightarrow> l
                                             | None \<Rightarrow> RESPONSIVE_BREAKPOINTS E)
                          in case generateResponsiveImages E file (Some breakpoints) w of
                               (responsiveImages, w1) \<Rightarrow>
                                 (fold (\<lambda>(key, image).
                                          AList.update key (descriptor key file (snd image)))
                                       responsiveImages formats1,
                                  w1))
                       else (formats1, w)) of
                   (formats2, w1) \<Rightarrow>
                     (case (if isOptimizableFormat format
                            then
                              (case optimizeImage E file (quality_po options)
                                      (progressive_po options) None w1 of
                                 Inl e \<Rightarrow> Inl e
                               | Inr optimized \<Rightarrow>
                                   Inr (if size_i (snd optimized) < size_f file
                                        then Some (size_i (snd optimized)) else None))
                            else Inr None) of
                        Inl e \<Rightarrow> failed e w1
                      | Inr sz \<Rightarrow>
                          (Inr \<lparr>formats_p = Some formats2, size_p = sz\<rparr>,
                           log Info ''ImageProcessingService''
                             ''Image processed successfully'' w1))))))"

section \<open>\<^verbatim>\<open>ValidationService\<close>\<close>

text \<open>Strings are taken as ASCII: \<^verbatim>\<open>toLowerCase\<close> maps A to Z only.\<close>

definition to_lower :: "char \<Rightarrow> char" where
  "to_lower c =
     (case map_of (zip ''ABCDEFGHIJKLMNOPQRSTUVWXYZ'' ''abcdefghijklmnopqrstuvwxyz'') c of
        Some l \<Rightarrow> l
      | None \<Rightarrow> c)"

text \<open>\<^verbatim>\<open>s.includes(t)\<close>\<close>

fun str_includes :: "string \<Rightarrow> string \<Rightarrow> bool" where
  "str_includes [] t = (t = [])"
| "str_includes (c # cs) t = (take (length t) (c # cs) = t \<or> str_includes cs t)"

text \<open>\<^verbatim>\<open>name.split('.').pop()\<close>: what follows the last dot.\<close>

definition last_segment :: "string \<Rightarrow> string" where
  "last_segment s = rev (takeWhile (\<lambda>c. c \<noteq> CHR ''.'') (rev s))"

definition positive :: "nat option \<Rightarrow> bool" where
  "positive n = (case n of Some k \<Rightarrow> k \<noteq> 0 | None \<Rightarrow> False)"

text \<open>One of the two dimension checks of \<^verbatim>\<open>validateImage\<close>.\<close>

definition check_dimension :: "string \<Rightarrow> nat option \<Rightarrow> nat option \<Rightarrow> error + unit" where
  "check_dimension what limit actual =
     (case (limit, actual) of
        (Some m, Some a) \<Rightarrow>
          if m \<noteq> 0 \<and> a \<noteq> 0 \<and> a > m
          then Inl (Error (''Image '' @ what @ '' '' @ show_nat a
                     @ '' exceeds maximum allowed '' @ what @ '' '' @ show_nat m))
          else Inr ()
      | _ \<Rightarrow> Inr ())"

definition validateImage ::
  "env \<Rightarrow> multer_file \<Rightarrow> nat option \<Rightarrow> nat option \<Rightarrow> 'b world \<Rightarrow> (error + unit) \<times> 'b world" where
  "validateImage E file maxWidth maxHeight w =
     (if \<not> positive maxWidth \<and> \<not> positive maxHeight then (Inr (), w)
      else
        (let attempt =
               (case sharp_read_metadata E w (path_m file) of
                  Inl e \<Rightarrow> Inl e
                | Inr metadata \<Rightarrow>
                    (case check_dimension ''width'' maxWidth (width_md metadata) of
                       Inl e \<Rightarrow> Inl e
                     | Inr u \<Rightarrow> check_dimension ''height'' maxHeight (height_md metadata)))
         in case attempt of
              Inr u \<Rightarrow> (Inr (), w)
            | Inl e \<Rightarrow>
                (if str_includes (message e) ''exceeds maximum'' then (Inl e, w)
                 else (Inr (),
                       log Warn ''ValidationService'' ''Failed to validate image dimensions'' w))))"

definition validateFile ::
  "env \<Rightarrow> multer_file \<Rightarrow> validation_options \<Rightarrow> 'b world \<Rightarrow> (error + unit) \<times> 'b world" where
  "validateFile E file options w =
     (let maxFileSize = (case maxFileSize_vo options of Some m \<Rightarrow> m | None \<Rightarrow> MAX_FILE_SIZE E);
          allowedTypes = (case allowedTypes_vo options of Some l \<Rightarrow> l | None \<Rightarrow> ALLOWED_TYPES E)
      in
      if size_m file > maxFileSize
      then (Inl (Error (''File size '' @ show_nat (size_m file)
                   @ '' exceeds maximum allowed size '' @ show_nat maxFileSize)), w)
      else if mimetype file \<notin> set allowedTypes
      then (Inl (Error (''File type '' @ mimetype file @ '' is not allowed'')), w)
      else
        (let fileExtension = map to_lower (last_segment (originalname file));
             extension_refused =
               (case allowedExtensions_vo options of
                  Some exts \<Rightarrow> fileExtension = [] \<or> fileExtension \<notin> set exts
                | None \<Rightarrow> False)
         in
         if extension_refused
         then (Inl (Error (''File extension '' @ fileExtension @ '' is not allowed'')), w)
         else
           (case (if startsWith (mimetype file) ''image/''
                  then validateImage E file (maxWidth_vo options) (maxHeight_vo options) w
                  else (Inr (), w)) of
              (Inl e, w1) \<Rightarrow> (Inl e, w1)
            | (Inr u, w1) \<Rightarrow>
                (Inr (), log Info ''ValidationService'' ''File validation passed'' w1))))"

section \<open>\<^verbatim>\<open>UploadService\<close>\<close>

text \<open>
  \<^verbatim>\<open>/[<>:"/\\|?*\u0000-\u001F]/\<close> by character codes, and
  \<^verbatim>\<open>/^(con|prn|aux|nul|com\d|lpt\d)$/i\<close>.
\<close>

definition filenameReserved :: "char \<Rightarrow> bool" where
  "filenameReserved c =
     (let n = (of_char c :: nat)
      in n \<in> set [60, 62, 58, 34, 47, 92, 124, 63, 42] \<or> n < 32)"

definition is_digit :: "char \<Rightarrow> bool" where
  "is_digit c = (let n = (of_char c :: nat) in 48 \<le> n \<and> n \<le> 57)"

definition windowsReservedName :: "string \<Rightarrow> bool" where
  "windowsReservedName s =
     (let l = map to_lower s
      in l \<in> set [''con'', ''prn'', ''aux'', ''nul'']
         \<or> (length l = 4 \<and> take 3 l \<in> set [''com'', ''lpt''] \<and> is_digit (last l)))"

definition isValidFilename :: "string \<Rightarrow> bool" where
  "isValidFilename filename =
     (if filename = [] \<or> length filename > 255 then False
      else if list_ex filenameReserved filename \<or> windowsReservedName filename then False
      else if filename = ''.'' \<or> filename = ''..'' then False
      else True)"

text \<open>\<^verbatim>\<open>fse.mkdtemp(path.join(os.tmpdir(), 'media-upload-'))\<close>\<close>

definition createTmpWorkingDirectory ::
  "env \<Rightarrow> 'b world \<Rightarrow> (error + string) \<times> 'b world" where
  "createTmpWorkingDirectory E w =
     (case draw E w of
        (r, w1) \<Rightarrow>
          (let d = tmpdir E @ ''/media-upload-'' @ r
           in case mkdtemp_fault E d of
                Some e \<Rightarrow> (Inl e, w1)
              | None \<Rightarrow> (Inr d, w1\<lparr>dirs := dirs w1 @ [d]\<rparr>)))"

text \<open>\<^verbatim>\<open>fse.remove(dir)\<close>: removes the directory when there is one.\<close>

definition fse_remove :: "env \<Rightarrow> string \<Rightarrow> 'b world \<Rightarrow> (error + unit) \<times> 'b world" where
  "fse_remove E d w =
     (case remove_fault E d of
        Some e \<Rightarrow> (Inl e, w)
      | None \<Rightarrow> (Inr (), w\<lparr>dirs := removeAll d (dirs w)\<rparr>))"

text \<open>
  \<^verbatim>\<open>generateFileHash\<close>; the second argument is the value of
  \<^verbatim>\<open>uuidv4()\<close>.
\<close>

definition generateFileHash :: "string \<Rightarrow> string \<Rightarrow> string" where
  "generateFileHash basename uuid = basename @ ''_'' @ filter (\<lambda>c. c \<noteq> CHR ''-'') uuid"

text \<open>
  The shape of a value of \<^verbatim>\<open>uuidv4()\<close>: thirty-six characters, of which
  exactly the ninth, fourteenth, nineteenth and twenty-fourth are dashes.
\<close>

definition uuid_shape :: "string \<Rightarrow> bool" where
  "uuid_shape u =
     (map (\<lambda>c. c = CHR ''-'') u
        = map (\<lambda>c. c = CHR ''-'') ''xxxxxxxx-xxxx-4xxx-yxxx-xxxxxxxxxxxx'')"

definition getFolderPath :: "env \<Rightarrow> string option \<Rightarrow> 'b world \<Rightarrow> string \<times> 'b world" where
  "getFolderPath E folderId w =
     (case folderId of
        None \<Rightarrow> (''/'', w)
      | Some i \<Rightarrow>
          (if i = [] then (''/'', w)
           else
             (case getFolder E i w of
                (Inl e, w1) \<Rightarrow> (''/'', log Warn ''UploadService'' ''Failed to get folder path'' w1)
              | (Inr None, w1) \<Rightarrow> (''/'', w1)
              | (Inr (Some f), w1) \<Rightarrow> (if path_d f = [] then ''/'' else path_d f, w1))))"

text \<open>
  \<^verbatim>\<open>formatFileInfo\<close>. \<^verbatim>\<open>extension(type)\<close> of \<^verbatim>\<open>mime-types\<close>
  is \<^verbatim>\<open>false\<close> for an unknown type, which the template string renders as
  \<^verbatim>\<open>.false\<close>.
\<close>

definition formatFileInfo ::
  "env \<Rightarrow> multer_file \<Rightarrow> file_info \<Rightarrow> string option \<Rightarrow> string option \<Rightarrow> 'b world
     \<Rightarrow> (error + uploadable) \<times> 'b world" where
  "formatFileInfo E file fileInfo folder_opt tmp_opt w =
     (let filename = originalname file; type = mimetype file in
      if \<not> isValidFilename filename
      then (Inl (Error ''File name contains invalid characters''), w)
      else
        (let ext0 = path_extname E filename;
             ext1 = (if ext0 = []
                     then ''.'' @ (case mime_extension E type of Some x \<Rightarrow> x | None \<Rightarrow> ''false'')
                     else ext0);
             usedName = str_normalize E (case or_else (name_fi fileInfo) (Some filename) of
                                       Some n \<Rightarrow> n | None \<Rightarrow> filename);
             basename = path_basename E usedName ext1
         in case draw E w of
              (uuid, w1) \<Rightarrow>
                (let hash = generateFileHash basename uuid;
                     folderId = or_else (folder_fi fileInfo) folder_opt
                 in case getFolderPath E folderId w1 of
                      (fp, w2) \<Rightarrow>
                        (let entity =
                               \<lparr>id_f = None, name = usedName,
                                alternativeText = alternativeText_fi fileInfo,
                                caption = caption_fi fileInfo,
                                folder = folderId, folderPath = Some fp, hash = hash,
                                ext = ext1, mime = type, size_f = size_m file,
                                url = None, previewUrl = None,
                                provider = STORAGE_PROVIDER E, provider_metadata = None,
                                tmpWorkingDirectory = tmp_opt,
                                filepath = Some (path_m file),
                                width = None, height = None, formats = None\<rparr>
                         in if startsWith type ''image/''
                            then
                              (case getMetadata E entity w2 of
                                 (Inr metadata, w3) \<Rightarrow>
                                   (Inr (entity\<lparr>width := width_md metadata,
                                                height := height_md metadata\<rparr>), w3)
                               | (Inl e, w3) \<Rightarrow>
                                   (Inr entity,
                                    log Warn ''UploadService''
                                      ''Failed to extract image metadata'' w3))
                            else (Inr entity, w2)))))"

text \<open>\<^verbatim>\<open>Object.assign(fileEntity, processedFile)\<close>\<close>

definition assign_processed :: "uploadable \<Rightarrow> processed \<Rightarrow> uploadable" where
  "assign_processed fileEntity processedFile =
     (let e1 = (case formats_p processedFile of
                  Some fs \<Rightarrow> fileEntity\<lparr>formats := Some fs\<rparr>
                | None \<Rightarrow> fileEntity)
      in case size_p processedFile of
           Some n \<Rightarrow> e1\<lparr>size_f := n\<rparr>
         | None \<Rightarrow> e1)"

text \<open>The body of the loop of \<^verbatim>\<open>uploadFiles\<close>, for one file.\<close>

definition uploadFiles_body ::
  "env \<Rightarrow> 'b storage_provider \<Rightarrow> file_info \<Rightarrow> string option \<Rightarrow> processing_options
     \<Rightarrow> validation_options \<Rightarrow> string \<Rightarrow> multer_file \<Rightarrow> 'b world
     \<Rightarrow> (error + uploadable) \<times> 'b world" where
  "uploadFiles_body E P fileInfo folder_opt popts vopts tmpDir file w =
     (case validateFile E file vopts w of
        (Inl e, w1) \<Rightarrow> (Inl e, w1)
      | (Inr u, w1) \<Rightarrow>
          (case formatFileInfo E file fileInfo folder_opt (Some tmpDir) w1 of
             (Inl e, w2) \<Rightarrow> (Inl e, w2)
           | (Inr fileEntity, w2) \<Rightarrow>
               (case (if startsWith (mime fileEntity) ''image/''
                      then (case processImage E fileEntity popts w2 of
                              (Inl e, w3) \<Rightarrow> (Inl e, w3)
                            | (Inr processedFile, w3) \<Rightarrow>
                                (Inr (assign_processed fileEntity processedFile), w3))
                      else (Inr fileEntity, w2)) of
                  (Inl e, w3) \<Rightarrow> (Inl e, w3)
                | (Inr fileEntity1, w3) \<Rightarrow>
                    (case StorageProviderService_upload P fileEntity1 w3 of
                       (Inl e, w4) \<Rightarrow> (Inl e, w4)
                     | (Inr fileEntity2, w4) \<Rightarrow>
                         (case saveFile E fileEntity2 w4 of
                            (Inl e, w5) \<Rightarrow> (Inl e, w5)
                          | (Inr savedFile, w5) \<Rightarrow>
                              (Inr savedFile,
                               log Info ''UploadService'' ''File uploaded successfully'' w5))))))"

fun uploadFiles_loop ::
  "env \<Rightarrow> 'b storage_provider \<Rightarrow> file_info \<Rightarrow> string option \<Rightarrow> processing_options
     \<Rightarrow> validation_options \<Rightarrow> string \<Rightarrow> multer_file list \<Rightarrow> uploadable list \<Rightarrow> 'b world
     \<Rightarrow> (error + uploadable list) \<times> 'b world" where
  "uploadFiles_loop E P fileInfo folder_opt popts vopts tmp [] uploadedFiles w =
     (Inr uploadedFiles, w)"
| "uploadFiles_loop E P fileInfo folder_opt popts vopts tmp (file # rest) uploadedFiles w =
     (case uploadFiles_body E P fileInfo folder_opt popts vopts tmp file w of
        (Inl e, w1) \<Rightarrow> (Inl e, w1)
      | (Inr savedFile, w1) \<Rightarrow>
          uploadFiles_loop E P fileInfo folder_opt popts vopts tmp rest
            (uploadedFiles @ [savedFile]) w1)"

text \<open>The \<^verbatim>\<open>finally\<close> block of \<^verbatim>\<open>uploadFiles\<close>.\<close>

definition uploadFiles_cleanup :: "env \<Rightarrow> string \<Rightarrow> 'b world \<Rightarrow> 'b world" where
  "uploadFiles_cleanup E tmpDir w =
     (if tmpDir \<noteq> []
      then (case fse_remove E tmpDir w of
              (Inl e, w1) \<Rightarrow> log Warn ''UploadService'' ''Failed to clean up tmp directory'' w1
            | (Inr u, w1) \<Rightarrow> w1)
      else w)"

definition uploadFiles ::
  "env \<Rightarrow> 'b storage_provider \<Rightarrow> multer_file list \<Rightarrow> file_info \<Rightarrow> string option
     \<Rightarrow> processing_options \<Rightarrow> validation_options \<Rightarrow> 'b world
     \<Rightarrow> (error + uploadable list) \<times> 'b world" where
  "uploadFiles E P fs fileInfo folder_opt popts vopts w =
     (case createTmpWorkingDirectory E w of
        (Inl e, w1) \<Rightarrow> (Inl e, w1)
      | (Inr tmpDir, w1) \<Rightarrow>
          (case uploadFiles_loop E P fileInfo folder_opt popts vopts tmpDir fs [] w1 of
             (Inr uploadedFiles, w2) \<Rightarrow>
               (Inr uploadedFiles, uploadFiles_cleanup E tmpDir w2)
           | (Inl e, w2) \<Rightarrow>
               (Inl e,
                uploadFiles_cleanup E tmpDir
                  (log Failure ''UploadService'' ''Upload failed'' w2))))"

definition deleteFile ::
  "env \<Rightarrow> 'b storage_provider \<Rightarrow> string \<Rightarrow> 'b world \<Rightarrow> (error + bool) \<times> 'b world" where
  "deleteFile E P i w =
     (case getFile E i w of
        (Inl e, w1) \<Rightarrow> (Inl e, w1)
      | (Inr None, w1) \<Rightarrow> (Inl (Error ''File not found''), w1)
      | (Inr (Some file), w1) \<Rightarrow>
          (let failed = (\<lambda>e w'. (Inl e, log Failure ''UploadService'' ''Failed to delete file'' w'))
           in case StorageProviderService_delete P file w1 of
                (Inl e, w2) \<Rightarrow> failed e w2
              | (Inr u, w2) \<Rightarrow>
                  (case DatabaseService_deleteFile E i w2 of
                     (Inl e, w3) \<Rightarrow> failed e w3
                   | (Inr b, w3) \<Rightarrow>
                       (Inr True, log Info ''UploadService'' ''File deleted successfully'' w3))))"

section \<open>The routes of the files (\<^verbatim>\<open>routes/files\<close>)\<close>

record bulk_result =
  successful :: nat
  failed :: nat
  total :: nat

text \<open>What a handler sends: the status and the \<^verbatim>\<open>ApiResponse\<close>.\<close>

record api_response =
  status :: nat
  success :: bool
  data :: "bulk_result option"
  error_msg :: "string option"
  message_txt :: "string option"

definition delete_handler ::
  "env \<Rightarrow> 'b storage_provider \<Rightarrow> string \<Rightarrow> 'b world \<Rightarrow> api_response \<times> 'b world" where
  "delete_handler E P i w =
     (if i = []
      then (\<lparr>status = 400, success = False, data = None,
             error_msg = Some ''File ID is required'', message_txt = None\<rparr>, w)
      else
        (case deleteFile E P i w of
           (Inl e, w1) \<Rightarrow>
             (\<lparr>status = 400, success = False, data = None,
               error_msg = Some (message e), message_txt = None\<rparr>, w1)
         | (Inr deleted, w1) \<Rightarrow>
             (if \<not> deleted
              then (\<lparr>status = 404, success = False, data = None,
                     error_msg = Some ''File not found'', message_txt = None\<rparr>, w1)
              else (\<lparr>status = 200, success = True, data = None,
                     error_msg = None,
                     message_txt = Some ''File deleted successfully''\<rparr>, w1))))"

text \<open>
  \<^verbatim>\<open>Promise.allSettled(ids.map(id => uploadService.deleteFile(id)))\<close>: one
  outcome for each id, in the order of the ids. The deletions are run here one after
  the other in that order.
\<close>

fun fulfilled :: "error + 'a \<Rightarrow> bool" where
  "fulfilled (Inr v) = True"
| "fulfilled (Inl e) = False"

fun rejected :: "error + 'a \<Rightarrow> bool" where
  "rejected (Inl e) = True"
| "rejected (Inr v) = False"

fun allSettled_deleteFile ::
  "env \<Rightarrow> 'b storage_provider \<Rightarrow> string list \<Rightarrow> 'b world \<Rightarrow> (error + bool) list \<times> 'b world" where
  "allSettled_deleteFile E P [] w = ([], w)"
| "allSettled_deleteFile E P (i # ids) w =
     (case deleteFile E P i w of
        (r, w1) \<Rightarrow>
          (case allSettled_deleteFile E P ids w1 of
             (rs, w2) \<Rightarrow> (r # rs, w2)))"

text \<open>
  The bulk delete handler. The body's \<^verbatim>\<open>ids\<close> is \<open>None\<close> when it is
  missing or is not an array.
\<close>

definition bulk_delete_handler ::
  "env \<Rightarrow> 'b storage_provider \<Rightarrow> string list option \<Rightarrow> 'b world \<Rightarrow> api_response \<times> 'b world" where
  "bulk_delete_handler E P body_ids w =
     (case body_ids of
        None \<Rightarrow>
          (\<lparr>status = 400, success = False, data = None,
            error_msg = Some ''File IDs array is required'', message_txt = None\<rparr>, w)
      | Some ids \<Rightarrow>
          (if length ids = 0
           then (\<lparr>status = 400, success = False, data = None,
                  error_msg = Some ''File IDs array is required'', message_txt = None\<rparr>, w)
           else
             (case allSettled_deleteFile E P ids w of
                (results, w1) \<Rightarrow>
                  (let successful = length (filter fulfilled results);
                       failed = length (filter rejected results)
                   in (\<lparr>status = 200, success = True,
                        data = Some \<lparr>successful = successful, failed = failed,
                                     total = length ids\<rparr>,
                        error_msg = None,
                        message_txt = Some (''Bulk delete completed: '' @ show_nat successful
                                        @ '' successful, '' @ show_nat failed @ '' failed'')\<rparr>,
                       w1)))))"

section \<open>An example deployment\<close>

text \<open>
  A concrete environment and state on which the properties below are evaluated. The
  configuration is the one of the README. Images are kept in a toy format: the width,
  the height, then a payload whose length stands for the encoding quality (one byte
  per ten points). Re-encoding keeps the dimensions and writes the payload for the
  requested quality; with no encoder chosen the library writes its default quality of
  80. Resizing never enlarges when \<open>withoutEnlargement\<close> is set: it keeps the
  source dimension, as the image library documents for that option.
\<close>

definition toy_encode :: "nat \<Rightarrow> nat \<Rightarrow> nat \<Rightarrow> sharp_output" where
  "toy_encode w h q =
     (let bs = w # h # replicate (q div 10) 0
      in (bs, \<lparr>width_i = w, height_i = h, size_i = length bs\<rparr>))"

definition toy_target :: "bool \<Rightarrow> nat \<Rightarrow> nat option \<Rightarrow> nat" where
  "toy_target keep src t =
     (case t of None \<Rightarrow> src | Some n \<Rightarrow> if keep \<and> src < n then src else n)"

fun toy_toBuffer :: "bytes \<Rightarrow> pipeline \<Rightarrow> error + sharp_output" where
  "toy_toBuffer (w # h # payload) Plain = Inr (toy_encode w h 80)"
| "toy_toBuffer (w # h # payload) (Resize r) =
     Inr (toy_encode (toy_target (withoutEnlargement r) w (width_r r))
                     (toy_target (withoutEnlargement r) h (height_r r))
                     (10 * length payload))"
| "toy_toBuffer (w # h # payload) (Encode (Jpeg q p)) = Inr (toy_encode w h q)"
| "toy_toBuffer (w # h # payload) (Encode (Png q p)) = Inr (toy_encode w h q)"
| "toy_toBuffer (w # h # payload) (Encode (Webp q)) = Inr (toy_encode w h q)"
| "toy_toBuffer (w # h # payload) (Encode (Tiff q)) = Inr (toy_encode w h q)"
| "toy_toBuffer (w # h # payload) (Encode (Avif q)) = Inr (toy_encode w h q)"
| "toy_toBuffer bs pl = Inl (Error ''Input buffer contains unsupported image format'')"

fun toy_decode :: "bytes \<Rightarrow> error + sharp_metadata" where
  "toy_decode (w # h # payload) = Inr \<lparr>width_md = Some w, height_md = Some h\<rparr>"
| "toy_decode bs = Inl (Error ''Input buffer contains unsupported image format'')"

text \<open>
  File names in the example have no directory part and at most one dot, where
  \<^verbatim>\<open>path.extname\<close> is the part from the dot on and
  \<^verbatim>\<open>path.basename(name, ext)\<close> drops that suffix.
\<close>

definition toy_extname :: "string \<Rightarrow> string" where
  "toy_extname s = dropWhile (\<lambda>c. c \<noteq> CHR ''.'') s"

definition toy_basename :: "string \<Rightarrow> string \<Rightarrow> string" where
  "toy_basename s e =
     (if e \<noteq> [] \<and> length e < length s \<and> drop (length s - length e) s = e
      then take (length s - length e) s else s)"

definition env0 :: env where
  "env0 =
     \<lparr>MAX_FILE_SIZE = 10485760,
      ALLOWED_TYPES = [''image/jpeg'', ''image/png'', ''image/gif''],
      IMAGE_QUALITY = 80,
      IMAGE_PROGRESSIVE = True,
      GENERATE_THUMBNAILS = True,
      RESPONSIVE_BREAKPOINTS = [480, 768, 1024, 1920],
      STORAGE_PROVIDER = ''aws-s3'',
      sharp_decode = toy_decode,
      sharp_toBuffer = toy_toBuffer,
      path_extname = toy_extname,
      path_basename = toy_basename,
      str_normalize = (\<lambda>s. s),
      mime_extension = (\<lambda>t. if t = ''image/png'' then Some ''png'' else None),
      tmpdir = ''/tmp'',
      entropy = (\<lambda>n. ''r'' @ show_nat n),
      mkdtemp_fault = (\<lambda>p. None),
      remove_fault = (\<lambda>p. None),
      prisma_fault = (\<lambda>c. None)\<rparr>"

text \<open>
  The example's provider keeps objects in a bucket, keyed as
  \<^verbatim>\<open>S3StorageProvider.getS3Key\<close> keys them
  (\<^verbatim>\<open>`${file.folderPath || ''}/${file.hash}${file.ext}`.replace(/^\//, '')\<close>).
  The backend is the list of keys, each with a flag saying that the object is under
  retention; the bucket refuses to overwrite or delete such an object.
\<close>

definition getS3Key :: "uploadable \<Rightarrow> string" where
  "getS3Key file =
     (let k = (case folderPath file of Some p \<Rightarrow> p | None \<Rightarrow> []) @ ''/'' @ hash file @ ext file
      in if startsWith k ''/'' then tl k else k)"

definition bucket_upload ::
  "(string \<times> bytes) list \<Rightarrow> uploadable \<Rightarrow> (string \<times> bool) list
     \<Rightarrow> (error + uploadable) \<times> (string \<times> bool) list" where
  "bucket_upload d file b =
     (case filepath file of
        None \<Rightarrow> (Inl (Error ''File path is required for upload''), b)
      | Some p \<Rightarrow>
          (if p = [] then (Inl (Error ''File path is required for upload''), b)
           else
             (case map_of d p of
                None \<Rightarrow> (Inl (Error (''ENOENT: no such file or directory, open '' @ p)), b)
              | Some bs \<Rightarrow>
                  (let key = getS3Key file
                   in if (key, True) \<in> set b then (Inl (Error ''AccessDenied''), b)
                      else (Inr (file\<lparr>url := Some (''https://media.example/'' @ key),
                                      provider_metadata :=
                                        Some [(''bucket'', ''media''), (''key'', key)]\<rparr>),
                            b @ [(key, False)])))))"

definition bucket_delete ::
  "uploadable \<Rightarrow> (string \<times> bool) list \<Rightarrow> (error + unit) \<times> (string \<times> bool) list" where
  "bucket_delete file b =
     (let key = getS3Key file
      in if (key, True) \<in> set b then (Inl (Error ''AccessDenied''), b)
         else (Inr (), filter (\<lambda>kv. fst kv \<noteq> key) b))"

definition bucket :: "(string \<times> bool) list storage_provider" where
  "bucket = \<lparr>provider_name = ''aws-s3'', upload = bucket_upload, delete = bucket_delete\<rparr>"

text \<open>Three folders, \<open>docs\<close>, \<open>docs/img\<close> and \<open>tmp\<close>, and one file in the second.\<close>

definition folderA :: file_folder where
  "folderA = \<lparr>id_d = ''fA'', name_d = ''docs'', path_d = ''/docs'', parent_d = None\<rparr>"

definition folderB :: file_folder where
  "folderB =
     \<lparr>id_d = ''fB'', name_d = ''img'', path_d = ''/docs/img'', parent_d = Some ''fA''\<rparr>"

definition folderC :: file_folder where
  "folderC = \<lparr>id_d = ''fC'', name_d = ''tmp'', path_d = ''/tmp'', parent_d = None\<rparr>"

definition fileX :: uploadable where
  "fileX =
     \<lparr>id_f = Some ''x1'', name = ''cat.png'', alternativeText = None, caption = None,
      folder = Some ''fB'', folderPath = Some ''/docs/img'', hash = ''cat_0a'',
      ext = ''.png'', mime = ''image/png'', size_f = 10,
      url = Some ''https://media.example/docs/img/cat_0a.png'', previewUrl = None,
      provider = ''aws-s3'',
      provider_metadata = None, tmpWorkingDirectory = None, filepath = None,
      width = Some 300, height = Some 200, formats = None\<rparr>"

text \<open>Two files in the root; the object of the first is under retention.\<close>

definition fileY :: uploadable where
  "fileY =
     fileX\<lparr>id_f := Some ''y1'', name := ''dog.png'', folder := None, folderPath := Some ''/'',
       hash := ''dog_0b'', url := Some ''https://media.example//dog_0b.png''\<rparr>"

definition fileZ :: uploadable where
  "fileZ =
     fileX\<lparr>id_f := Some ''z1'', name := ''owl.png'', folder := None, folderPath := Some ''/'',
       hash := ''owl_0c'', url := Some ''https://media.example//owl_0c.png''\<rparr>"

definition w0 :: "(string \<times> bool) list world" where
  "w0 =
     \<lparr>files = [fileX, fileY, fileZ], folders = [folderA, folderB, folderC],
      backend = [(''docs/img/cat_0a.png'', False), (''/dog_0b.png'', True), (''/owl_0c.png'', False)],
      disk = [(''/uploads/u1'', [300, 200, 0, 0, 0, 0, 0]), (''/uploads/u2'', [64, 64, 0, 0]),
              (''/uploads/u3'', [64, 64, 0, 0, 0, 0, 0, 0, 0, 0, 0, 0])],
      dirs = [], logs = [], seed = 0\<rparr>"

text \<open>The uploads of the example and the empty option objects.\<close>

definition photo :: multer_file where
  "photo =
     \<lparr>originalname = ''photo.png'', mimetype = ''image/png'', size_m = 7,
      path_m = ''/uploads/u1''\<rparr>"

definition memo :: multer_file where
  "memo =
     \<lparr>originalname = ''notes.txt'', mimetype = ''text/plain'', size_m = 4,
      path_m = ''/uploads/u2''\<rparr>"

definition no_info :: file_info where
  "no_info =
     \<lparr>name_fi = None, alternativeText_fi = None, caption_fi = None, folder_fi = None\<rparr>"

definition no_processing :: processing_options where
  "no_processing =
     \<lparr>quality_po = None, progressive_po = None, responsive_po = None, breakpoints_po = None\<rparr>"

definition no_validation :: validation_options where
  "no_validation =
     \<lparr>maxFileSize_vo = None, allowedTypes_vo = None, allowedExtensions_vo = None,
      maxWidth_vo = None, maxHeight_vo = None\<rparr>"

text \<open>The folder \<open>pics\<close> once created under \<open>docs\<close>, and the entity built for
  \<open>photo\<close> uploaded into it.\<close>

definition folderP :: file_folder where
  "folderP =
     \<lparr>id_d = ''r0'', name_d = ''pics'', path_d = ''/docs/pics'', parent_d = Some ''fA''\<rparr>"

definition photo_entity :: uploadable where
  "photo_entity =
     \<lparr>id_f = None, name = ''photo.png'', alternativeText = None, caption = None,
      folder = Some ''r0'', folderPath = Some ''/docs/pics'', hash = ''photo_r1'',
      ext = ''.png'', mime = ''image/png'', size_f = 7, url = None, previewUrl = None,
      provider = ''aws-s3'', provider_metadata = None, tmpWorkingDirectory = None,
      filepath = Some ''/uploads/u1'', width = Some 300, height = Some 200,
      formats = None\<rparr>"

text \<open>The same in the root: the folder \<open>media\<close>, and \<open>photo\<close> uploaded with no
  folder.\<close>

definition folderM :: file_folder where
  "folderM = \<lparr>id_d = ''r0'', name_d = ''media'', path_d = ''/media'', parent_d = None\<rparr>"

definition photo_root_entity :: uploadable where
  "photo_root_entity =
     photo_entity\<lparr>folder := None, folderPath := Some ''/'', hash := ''photo_r0''\<rparr>"

text \<open>
  A second image library, which differs from the first in one point: asked to resize
  with \<open>withoutEnlargement\<close> to a width beyond the source's, it rejects.
\<close>

definition strict_toBuffer :: "bytes \<Rightarrow> pipeline \<Rightarrow> error + sharp_output" where
  "strict_toBuffer bs pl =
     (case (bs, pl) of
        (w # h # payload, Resize r) \<Rightarrow>
          (if withoutEnlargement r \<and> (case width_r r of Some t \<Rightarrow> w < t | None \<Rightarrow> False)
           then Inl (Error ''Image is narrower than the requested width'')
           else toy_toBuffer bs pl)
      | _ \<Rightarrow> toy_toBuffer bs pl)"

definition env_strict :: env where
  "env_strict = env0\<lparr>sharp_toBuffer := strict_toBuffer\<rparr>"

text \<open>The entities of two more uploads: a larger PNG and a GIF.\<close>

definition large_entity :: uploadable where
  "large_entity =
     photo_root_entity\<lparr>name := ''large.png'', hash := ''large_r0'', size_f := 12,
       filepath := Some ''/uploads/u3'', width := Some 64, height := Some 64\<rparr>"

definition gif_entity :: uploadable where
  "gif_entity =
     photo_root_entity\<lparr>name := ''anim.gif'', hash := ''anim_r0'', ext := ''.gif'',
       mime := ''image/gif''\<rparr>"

text \<open>Processing without the responsive set, and what it yields for the two.\<close>

definition no_responsive :: processing_options where
  "no_responsive = no_processing\<lparr>responsive_po := Some False\<rparr>"

definition large_processed :: processed where
  "large_processed =
     \<lparr>formats_p =
        Some [(''thumbnail'',
               \<lparr>name_v = ''thumbnail_large.png'', hash_v = ''thumbnail_large_r0'',
                ext_v = ''.png'', mime_v = ''image/png'', width_v = 64, height_v = 64,
                size_v = 12\<rparr>)],
      size_p = Some 10\<rparr>"

definition gif_processed :: processed where
  "gif_processed =
     \<lparr>formats_p =
        Some [(''thumbnail'',
               \<lparr>name_v = ''thumbnail_anim.gif'', hash_v = ''thumbnail_anim_r0'',
                ext_v = ''.gif'', mime_v = ''image/gif'', width_v = 150, height_v = 150,
                size_v = 7\<rparr>)],
      size_p = None\<rparr>"

text \<open>
  The states of the example while the files \<open>x1\<close>, \<open>y1\<close> and \<open>z1\<close> are
  deleted in that order: after the first, after the refused second, after the third.
\<close>

definition w_a :: "(string \<times> bool) list world" where
  "w_a = w0\<lparr>files := [fileY, fileZ],
            backend := [(''/dog_0b.png'', True), (''/owl_0c.png'', False)],
            logs := [(Info, ''UploadService'', ''File deleted successfully'')]\<rparr>"

definition w_b :: "(string \<times> bool) list world" where
  "w_b = w_a\<lparr>logs := logs w_a @ [(Failure, ''UploadService'', ''Failed to delete file'')]\<rparr>"

definition w_c :: "(string \<times> bool) list world" where
  "w_c = w_b\<lparr>files := [fileY], backend := [(''/dog_0b.png'', True)],
             logs := logs w_b @ [(Info, ''UploadService'', ''File deleted successfully'')]\<rparr>"

text \<open>
  A batch of \<open>photo\<close> and \<open>memo\<close>: the working directory, the state once it is
  made, the entity saved for \<open>photo\<close>, and the state after \<open>photo\<close>. The type of
  \<open>memo\<close> is not among the allowed ones.
\<close>

definition tmp0 :: string where
  "tmp0 = ''/tmp/media-upload-r0''"

definition w_1 :: "(string \<times> bool) list world" where
  "w_1 = w0\<lparr>dirs := [tmp0], seed := 1\<rparr>"

definition photo_saved :: uploadable where
  "photo_saved =
     photo_root_entity\<lparr>id_f := Some ''r2'', hash := ''photo_r1'',
       url := Some ''https://media.example//photo_r1.png'',
       provider_metadata := Some [(''bucket'', ''media''), (''key'', ''/photo_r1.png'')],
       filepath := None,
       formats :=
         Some [(''thumbnail'',
                \<lparr>name_v = ''thumbnail_photo.png'', hash_v = ''thumbnail_photo_r1'',
                 ext_v = ''.png'', mime_v = ''image/png'', width_v = 150, height_v = 150,
                 size_v = 7\<rparr>)]\<rparr>"

definition w_2 :: "(string \<times> bool) list world" where
  "w_2 =
     w_1\<lparr>files := files w0 @ [photo_saved],
         backend := backend w0 @ [(''/photo_r1.png'', False)],
         logs := [(Info, ''ValidationService'', ''File validation passed''),
                  (Info, ''ImageProcessingService'', ''Image processed successfully''),
                  (Info, ''UploadService'', ''File uploaded successfully'')],
         seed := 3\<rparr>"

text \<open>The same deployment on a file system that refuses to remove directories.\<close>

definition env_busy :: env where
  "env_busy = env0\<lparr>remove_fault := (\<lambda>p. Some (Error ''EBUSY''))\<rparr>"

section \<open>Properties\<close>

subsection \<open>Auxiliary facts\<close>

lemma find_filter_self: "find P (filter (\<lambda>x. \<not> P x) xs) = None"
  by (induction xs) auto

lemma find_append_new:
  "find P xs = None \<Longrightarrow> P x \<Longrightarrow> find P (xs @ [x]) = Some x"
  by (induction xs) (auto split: if_splits)

lemma createFolder_row:
  assumes "createFolder E n par w = (Inr B, w')"
  shows "find (\<lambda>f. id_d f = id_d B) (folders w) = None
         \<and> folders w' = folders w @ [B\<lparr>parent_d := par\<rparr>]"
  using assms
  by (auto simp: createFolder_def prisma_folder_create_def draw_def folder_of_row_def Let_def log_def
        getFolder_def prisma_folder_findUnique_def
        split: sum.splits option.splits if_splits prod.splits)

lemma createFolder_root_path:
  assumes "createFolder E n None w = (Inr A, wA)"
  shows "path_d A = ''/'' @ n"
  using assms
  by (auto simp: createFolder_def prisma_folder_create_def draw_def folder_of_row_def Let_def log_def
        split: sum.splits option.splits if_splits prod.splits)

lemma createFolder_child_path:
  assumes "pid \<noteq> []" "getFolder E pid w = (Inr (Some P), w)"
    "createFolder E n (Some pid) w = (Inr B, wB)"
  shows "path_d B = path_d P @ ''/'' @ n \<and> parent_d B = Some pid"
  using assms
  by (auto simp: createFolder_def prisma_folder_create_def draw_def folder_of_row_def Let_def log_def
        or_else_def
        split: sum.splits option.splits if_splits prod.splits)

lemma createFolder_path_nonempty:
  assumes "createFolder E n par w = (Inr B, wB)"
  shows "path_d B \<noteq> []"
  using assms
  by (auto simp: createFolder_def prisma_folder_create_def draw_def folder_of_row_def Let_def log_def
        split: sum.splits option.splits if_splits prod.splits)

lemma getFolderPath_stored:
  assumes "find (\<lambda>f. id_d f = i) (folders w) = Some B" "i \<noteq> []" "path_d B \<noteq> []"
    "prisma_fault E (Folder_findUnique i) = None"
  shows "getFolderPath E (Some i) w = (path_d B, w)"
  using assms
  by (auto simp: getFolderPath_def getFolder_def prisma_folder_findUnique_def folder_of_row_def)

lemma getFolderPath_absent: "\<not> truthy fid \<Longrightarrow> getFolderPath E fid w = (''/'', w)"
  by (cases fid) (auto simp: getFolderPath_def)

lemma getFolderPath_fst_cong:
  "folders w = folders w' \<Longrightarrow> fst (getFolderPath E fid w) = fst (getFolderPath E fid w')"
  by (auto simp: getFolderPath_def getFolder_def prisma_folder_findUnique_def log_def
      split: option.splits sum.splits)

lemma formatFileInfo_folderPath:
  assumes "formatFileInfo E file fi fo tmp w = (Inr ent, w')"
  shows "folderPath ent = Some (fst (getFolderPath E (or_else (folder_fi fi) fo) w))"
proof -
  have *: "fst (getFolderPath E fid (w\<lparr>seed := Suc (seed w)\<rparr>)) = fst (getFolderPath E fid w)" for fid
    by (rule getFolderPath_fst_cong) simp
  have "folderPath ent = Some (fst (getFolderPath E (or_else (folder_fi fi) fo) (w\<lparr>seed := Suc (seed w)\<rparr>)))"
    using assms
    by (auto simp: formatFileInfo_def Let_def draw_def split: if_splits prod.splits sum.splits)
  then show ?thesis by (simp only: *)
qed

lemma mask_filter_inj:
  "map (\<lambda>c. c = d) xs = map (\<lambda>c. c = d) ys \<Longrightarrow>
   filter (\<lambda>c. c \<noteq> d) xs = filter (\<lambda>c. c \<noteq> d) ys \<Longrightarrow> xs = ys"
proof (induction xs arbitrary: ys)
  case Nil
  then show ?case by simp
next
  case (Cons x xs)
  then obtain y ys' where ys: "ys = y # ys'" by (cases ys) auto
  with Cons.prems have "(x = d) = (y = d)" "map (\<lambda>c. c = d) xs = map (\<lambda>c. c = d) ys'"
    by auto
  with Cons.prems ys Cons.IH [of ys'] show ?case
    by (cases "x = d") auto
qed

lemma formatFileInfo_hash:
  assumes "formatFileInfo E file fi fo tmp w = (Inr ent, w')"
  shows "hash ent = generateFileHash (path_basename E (name ent) (ext ent)) (entropy E (seed w))"
  using assms
  by (auto simp: formatFileInfo_def Let_def draw_def split: if_splits prod.splits sum.splits)

lemma sharp_run_disk: "disk w' = disk w \<Longrightarrow> sharp_run E w' p pl = sharp_run E w p pl"
  by (simp add: sharp_run_def)

lemma resizeImage_disk:
  "disk w' = disk w \<Longrightarrow> resizeImage E file a b c d w' = resizeImage E file a b c d w"
  by (simp add: resizeImage_def sharp_run_disk [of w' w] split: option.splits)

lemma optimizeImage_disk:
  "disk w' = disk w \<Longrightarrow> optimizeImage E file q pr fmt w' = optimizeImage E file q pr fmt w"
  by (simp add: optimizeImage_def Let_def sharp_run_disk [of w' w] split: option.splits)

lemma disk_log [simp]: "disk (log l c m w) = disk w"
  by (simp add: log_def)

lemma resizeImage_log [simp]:
  "resizeImage E file a b c d (log l c' m w) = resizeImage E file a b c d w"
  by (rule resizeImage_disk) simp

lemma loop_keys:
  "fst ` set (fst (generateResponsiveImages_loop E file bps acc w))
     = fst ` set acc \<union> breakpoint_key ` {bp \<in> set bps. fulfilled (breakpoint_result E file w bp)}"
proof (induction bps arbitrary: acc w)
  case Nil
  then show ?case by simp
next
  case (Cons bp bps)
  have r: "breakpoint_result E file (log l c m w) x = breakpoint_result E file w x" for l c m x
    by (simp add: breakpoint_result_def)
  show ?case
  proof (cases "resizeImage E file (Some bp) None None (Some True) w")
    case (Inl e)
    then show ?thesis
      using Cons.IH [of acc "log Warn ''ImageProcessingService'' ''Failed to generate responsive image'' w"]
      by (auto simp: r breakpoint_result_def)
  next
    case (Inr out)
    then show ?thesis
      using Cons.IH [of "AList.update (''w'' @ show_nat bp) out acc" w]
      by (auto simp: breakpoint_result_def breakpoint_key_def dom_update)
  qed
qed

lemma set_update_sub: "set (AList.update k v al) \<subseteq> insert (k, v) (set al)"
  by (induction al) auto

lemma loop_values:
  "kv \<in> set (fst (generateResponsiveImages_loop E file bps acc w)) \<Longrightarrow>
     kv \<in> set acc \<or> (\<exists>bp \<in> set bps. fst kv = breakpoint_key bp \<and> breakpoint_result E file w bp = Inr (snd kv))"
proof (induction bps arbitrary: acc w)
  case Nil
  then show ?case by simp
next
  case (Cons bp bps)
  have r: "breakpoint_result E file (log l c m w) x = breakpoint_result E file w x" for l c m x
    by (simp add: breakpoint_result_def)
  show ?case
  proof (cases "resizeImage E file (Some bp) None None (Some True) w")
    case (Inl e)
    with Cons.prems
    have "kv \<in> set (fst (generateResponsiveImages_loop E file bps acc
             (log Warn ''ImageProcessingService'' ''Failed to generate responsive image'' w)))"
      by simp
    from Cons.IH [OF this] show ?thesis by (auto simp: r)
  next
    case (Inr out)
    with Cons.prems
    have "kv \<in> set (fst (generateResponsiveImages_loop E file bps
             (AList.update (''w'' @ show_nat bp) out acc) w))"
      by simp
    from Cons.IH [OF this] Inr set_update_sub [of "''w'' @ show_nat bp" out acc]
    show ?thesis by (auto simp: breakpoint_result_def breakpoint_key_def)
  qed
qed

lemma loop_world:
  "snd (generateResponsiveImages_loop E file bps acc w)
     = w\<lparr>logs := logs w @ replicate (length (filter (\<lambda>bp. rejected (breakpoint_result E file w bp)) bps))
                     (Warn, ''ImageProcessingService'', ''Failed to generate responsive image'')\<rparr>"
proof (induction bps arbitrary: acc w)
  case Nil
  then show ?case by simp
next
  case (Cons bp bps)
  have r: "breakpoint_result E file (log l c m w) x = breakpoint_result E file w x" for l c m x
    by (simp add: breakpoint_result_def)
  show ?case
  proof (cases "resizeImage E file (Some bp) None None (Some True) w")
    case (Inl e)
    then show ?thesis
      using Cons.IH [of acc "log Warn ''ImageProcessingService'' ''Failed to generate responsive image'' w"]
      by (simp add: r breakpoint_result_def) (simp add: log_def replicate_app_Cons_same)
  next
    case (Inr out)
    then show ?thesis
      using Cons.IH [of "AList.update (''w'' @ show_nat bp) out acc" w]
      by (simp add: breakpoint_result_def)
  qed
qed

lemma generateResponsiveImages_disk [simp]:
  "disk (snd (generateResponsiveImages E file bps w)) = disk w"
  by (simp add: generateResponsiveImages_def loop_world)

lemma optimizeImage_after_responsive [simp]:
  "optimizeImage E file q pr fmt (snd (generateResponsiveImages E f bps w)) = optimizeImage E file q pr fmt w"
  by (rule optimizeImage_disk) simp

lemma processImage_size_p:
  assumes "processImage E file opts w = (Inr r, w')"
  shows "size_p r = None \<or>
         (isOptimizableFormat (remove1 (CHR ''.'') (ext file)) \<and>
          (\<exists>out. optimizeImage E file (quality_po opts) (progressive_po opts) None w = Inr out
                \<and> size_i (snd out) < size_f file \<and> size_p r = Some (size_i (snd out))))"
  using assms
  by (auto simp: processImage_def Let_def split_beta split: if_splits sum.splits)

lemma processImage_unchanged:
  assumes "processImage E file opts w = (Inr r, w')" "formats_p r \<noteq> None"
    "optimizeImage E file (quality_po opts) (progressive_po opts) None w = Inr out"
    "isOptimizableFormat (remove1 (CHR ''.'') (ext file))"
  shows "size_p r = (if size_i (snd out) < size_f file then Some (size_i (snd out)) else None)"
  using assms
  by (auto simp: processImage_def Let_def split_beta split: if_splits sum.splits)

lemma replicate_numeral: "replicate (numeral n) x = x # replicate (pred_numeral n) x"
  by (simp add: numeral_eq_Suc)

lemma allSettled_length:
  "length (fst (allSettled_deleteFile E P ids w)) = length ids"
  by (induction ids arbitrary: w) (simp_all add: split_beta)

lemma settled_count: "length (filter fulfilled rs) + length (filter rejected rs) = length rs"
proof (induction rs)
  case Nil
  then show ?case by simp
next
  case (Cons r rs)
  then show ?case by (cases r) auto
qed

lemma allSettled_append:
  "allSettled_deleteFile E P (ids1 @ ids2) w =
     (case allSettled_deleteFile E P ids1 w of
        (rs1, w1) \<Rightarrow> (case allSettled_deleteFile E P ids2 w1 of (rs2, w2) \<Rightarrow> (rs1 @ rs2, w2)))"
  by (induction ids1 arbitrary: w) (auto split: prod.splits)

lemma files_log [simp]: "files (log l c m w) = files w"
  by (simp add: log_def)

lemma backend_log [simp]: "backend (log l c m w) = backend w"
  by (simp add: log_def)

lemma validateFile_store:
  "files (snd (validateFile E f vo w)) = files w"
  by (simp add: validateFile_def validateImage_def Let_def split_beta
      split: sum.splits option.splits if_splits)

lemma getFolderPath_store: "files (snd (getFolderPath E fid w)) = files w"
  by (auto simp: getFolderPath_def getFolder_def split: option.splits sum.splits prod.splits)

lemma getMetadata_store: "files (snd (getMetadata E ent w)) = files w"
  by (auto simp: getMetadata_def split: option.splits sum.splits)

lemma formatFileInfo_store:
  "files (snd (formatFileInfo E f fi fo tmp w)) = files w"
  by (simp add: formatFileInfo_def Let_def split_beta draw_def getFolderPath_store getMetadata_store
      split: sum.splits)

lemma generateResponsiveImages_store [simp]:
  "files (snd (generateResponsiveImages E file bps w)) = files w"
  by (simp add: generateResponsiveImages_def loop_world)

lemma processImage_store:
  "files (snd (processImage E ent po w)) = files w"
  by (simp add: processImage_def Let_def split_beta split: sum.splits)

lemma upload_store:
  "files (snd (StorageProviderService_upload P ent w)) = files w"
  by (simp add: StorageProviderService_upload_def split_beta)

lemma saveFile_store:
  "files (snd (saveFile E ent w))
     = files w @ (case fst (saveFile E ent w) of Inr s \<Rightarrow> [s] | Inl e \<Rightarrow> [])"
  by (simp add: saveFile_def prisma_file_create_def draw_def Let_def split: option.splits)

lemma body_store:
  "files (snd (uploadFiles_body E P fi fo po vo tmp f w))
     = files w @ (case fst (uploadFiles_body E P fi fo po vo tmp f w) of
                    Inr s \<Rightarrow> [s] | Inl e \<Rightarrow> [])"
  by (simp add: uploadFiles_body_def split_beta validateFile_store formatFileInfo_store
      processImage_store upload_store saveFile_store split: sum.splits)

lemma loop_ok:
  "uploadFiles_loop E P fi fo po vo tmp fs acc w = (Inr ups, w') \<Longrightarrow>
     \<exists>rows. ups = acc @ rows \<and> files w' = files w @ rows"
proof (induction fs arbitrary: acc w)
  case Nil
  then show ?case by simp
next
  case (Cons f fs)
  obtain r w1 where b: "uploadFiles_body E P fi fo po vo tmp f w = (r, w1)" by (cases "uploadFiles_body E P fi fo po vo tmp f w")
  with Cons.prems obtain s where r: "r = Inr s" by (cases r) auto
  with b Cons.prems have "uploadFiles_loop E P fi fo po vo tmp fs (acc @ [s]) w1 = (Inr ups, w')"
    by simp
  from Cons.IH [OF this] obtain rows where "ups = (acc @ [s]) @ rows" "files w' = files w1 @ rows" by blast
  moreover from body_store [of E P fi fo po vo tmp f w] b r have "files w1 = files w @ [s]" by simp
  ultimately show ?case by simp
qed

lemma loop_append:
  "uploadFiles_loop E P fi fo po vo tmp (pre @ post) acc w =
     (case uploadFiles_loop E P fi fo po vo tmp pre acc w of
        (Inl e, w1) \<Rightarrow> (Inl e, w1)
      | (Inr acc1, w1) \<Rightarrow> uploadFiles_loop E P fi fo po vo tmp post acc1 w1)"
  by (induction pre arbitrary: acc w) (auto split: prod.splits sum.splits)

lemma upload_delete:
  "StorageProviderService_upload (P\<lparr>delete := d\<rparr>) ent w = StorageProviderService_upload P ent w"
  by (simp add: StorageProviderService_upload_def)

lemma body_delete:
  "uploadFiles_body E (P\<lparr>delete := d\<rparr>) fi fo po vo tmp f w = uploadFiles_body E P fi fo po vo tmp f w"
  unfolding uploadFiles_body_def upload_delete ..

lemma loop_delete:
  "uploadFiles_loop E (P\<lparr>delete := d\<rparr>) fi fo po vo tmp fs acc w
     = uploadFiles_loop E P fi fo po vo tmp fs acc w"
  by (induction fs arbitrary: acc w) (simp_all add: body_delete split: prod.splits sum.splits)

lemma cleanup_store [simp]:
  "files (uploadFiles_cleanup E t w) = files w" "backend (uploadFiles_cleanup E t w) = backend w"
  by (simp_all add: uploadFiles_cleanup_def fse_remove_def log_def split: option.splits)

lemma createTmp_store:
  "files (snd (createTmpWorkingDirectory E w)) = files w"
  by (simp add: createTmpWorkingDirectory_def draw_def Let_def split: option.splits)

lemmas example_defs = env0_def w0_def folderA_def folderB_def folderC_def fileX_def fileY_def
  fileZ_def
  photo_def memo_def no_info_def no_processing_def no_validation_def folderP_def
  photo_entity_def folderM_def photo_root_entity_def env_strict_def large_entity_def
  gif_entity_def no_responsive_def large_processed_def gif_processed_def tmp0_def w_1_def
  photo_saved_def w_2_def env_busy_def

lemmas image_defs = replicate_numeral generateResponsiveImages_def resizeImage_def sharp_run_def toy_encode_def
  toy_target_def strict_toBuffer_def Let_def

lemmas delete_defs = deleteFile_def getFile_def prisma_file_findUnique_def
  StorageProviderService_delete_def bucket_def bucket_delete_def getS3Key_def startsWith_def
  DatabaseService_deleteFile_def prisma_file_delete_def log_def Let_def

lemmas upload_defs = uploadFiles_body_def validateFile_def validateImage_def positive_def
  last_segment_def to_lower_def startsWith_def formatFileInfo_def isValidFilename_def
  filenameReserved_def windowsReservedName_def is_digit_def draw_def generateFileHash_def
  getFolderPath_def or_else_def getMetadata_def sharp_read_metadata_def toy_extname_def
  toy_basename_def processImage_def FORMATS_TO_PROCESS_def isOptimizableFormat_def
  FORMATS_TO_OPTIMIZE_def generateThumbnail_def descriptor_def optimizeImage_def
  assign_processed_def StorageProviderService_upload_def bucket_def bucket_upload_def
  getS3Key_def saveFile_def prisma_file_create_def log_def show_nat.simps

subsection \<open>Deleting a folder\<close>

text \<open>
  C8. \<open>deleteFolder\<close> on a folder that exists and has no file and no subfolder
  succeeds and removes its record (every other row stays). When a file has the folder
  as its \<open>folder\<close>, or, failing that, a folder has it as its \<open>parent\<close>, the
  call is rejected with the error that names the children, and nothing but the log
  changes. Whenever the call is rejected, both tables and the backend are as before.
  The sources raise a plain \<^verbatim>\<open>Error\<close> here; it is told apart by its message.
\<close>

theorem deleteFolder_guard:
  fixes w :: "'b world"
  shows
  "(prisma_file_count E i w = Inr 0 \<and> prisma_folder_count E i w = Inr 0 \<and>
      prisma_fault E (Folder_delete i) = None \<and> find (\<lambda>f. id_d f = i) (folders w) \<noteq> None
    \<longrightarrow> deleteFolder E i w = (Inr True, w\<lparr>folders := filter (\<lambda>f. id_d f \<noteq> i) (folders w)\<rparr>)
        \<and> find (\<lambda>f. id_d f = i) (folders (snd (deleteFolder E i w))) = None)
   \<and> (\<forall>n. prisma_file_count E i w = Inr (Suc n)
        \<longrightarrow> deleteFolder E i w =
             (Inl (Error ''Cannot delete folder that contains files''),
              log Failure ''DatabaseService'' ''Failed to delete folder from database'' w))
   \<and> (\<forall>n. prisma_file_count E i w = Inr 0 \<and> prisma_folder_count E i w = Inr (Suc n)
        \<longrightarrow> deleteFolder E i w =
             (Inl (Error ''Cannot delete folder that contains subfolders''),
              log Failure ''DatabaseService'' ''Failed to delete folder from database'' w))
   \<and> (\<forall>e. fst (deleteFolder E i w) = Inl e
        \<longrightarrow> folders (snd (deleteFolder E i w)) = folders w
          \<and> files (snd (deleteFolder E i w)) = files w
          \<and> backend (snd (deleteFolder E i w)) = backend w)"
  by (auto simp: deleteFolder_def prisma_folder_delete_def log_def find_filter_self
           split: sum.splits option.splits if_splits)

theorem deleteFolder_guard_witness:
  "deleteFolder env0 ''fC'' w0 = (Inr True, w0\<lparr>folders := [folderA, folderB]\<rparr>)
   \<and> deleteFolder env0 ''fB'' w0 =
       (Inl (Error ''Cannot delete folder that contains files''),
        log Failure ''DatabaseService'' ''Failed to delete folder from database'' w0)
   \<and> deleteFolder env0 ''fA'' w0 =
       (Inl (Error ''Cannot delete folder that contains subfolders''),
        log Failure ''DatabaseService'' ''Failed to delete folder from database'' w0)
   \<and> folders (snd (deleteFolder env0 ''fA'' w0)) = [folderA, folderB, folderC]"
proof -
  have c: "prisma_file_count env0 ''fC'' w0 = Inr 0"
          "prisma_folder_count env0 ''fC'' w0 = Inr 0"
          "prisma_fault env0 (Folder_delete ''fC'') = None"
          "find (\<lambda>f. id_d f = ''fC'') (folders w0) \<noteq> None"
          "filter (\<lambda>f. id_d f \<noteq> ''fC'') (folders w0) = [folderA, folderB]"
    by (simp_all add: prisma_file_count_def prisma_folder_count_def example_defs)
  have b: "prisma_file_count env0 ''fB'' w0 = Inr (Suc 0)"
    by (simp add: prisma_file_count_def example_defs)
  have a: "prisma_file_count env0 ''fA'' w0 = Inr 0"
          "prisma_folder_count env0 ''fA'' w0 = Inr (Suc 0)"
          "folders w0 = [folderA, folderB, folderC]"
    by (simp_all add: prisma_file_count_def prisma_folder_count_def example_defs)
  show ?thesis
    using deleteFolder_guard [of env0 "''fC''" w0] deleteFolder_guard [of env0 "''fB''" w0]
      deleteFolder_guard [of env0 "''fA''" w0] a b c
    by (simp add: log_def)
qed

subsection \<open>Folder paths\<close>

lemma ex_createFolder:
  "createFolder env0 ''pics'' (Some ''fA'') w0 = (Inr folderP, w0\<lparr>folders := folders w0 @ [folderP], seed := 1\<rparr>)"
  by (simp add: createFolder_def getFolder_def prisma_folder_findUnique_def prisma_folder_create_def
      draw_def folder_of_row_def or_else_def Let_def example_defs show_nat.simps)

lemma ex_formatFileInfo:
  "formatFileInfo env0 photo no_info (Some ''r0'') None (w0\<lparr>folders := folders w0 @ [folderP], seed := 1\<rparr>)
     = (Inr photo_entity, w0\<lparr>folders := folders w0 @ [folderP], seed := 2\<rparr>)"
  by (simp add: formatFileInfo_def isValidFilename_def filenameReserved_def windowsReservedName_def
      to_lower_def is_digit_def Let_def draw_def generateFileHash_def getFolderPath_def
      getFolder_def prisma_folder_findUnique_def folder_of_row_def or_else_def startsWith_def
      getMetadata_def sharp_read_metadata_def toy_extname_def toy_basename_def example_defs
      show_nat.simps)

lemma ex_createFolder_root:
  "createFolder env0 ''media'' None w0 = (Inr folderM, w0\<lparr>folders := folders w0 @ [folderM], seed := 1\<rparr>)"
  by (simp add: createFolder_def prisma_folder_create_def draw_def folder_of_row_def or_else_def
      Let_def example_defs show_nat.simps)

lemma ex_formatFileInfo_root:
  "formatFileInfo env0 photo no_info None None w0 = (Inr photo_root_entity, w0\<lparr>seed := 1\<rparr>)"
  by (simp add: formatFileInfo_def isValidFilename_def filenameReserved_def windowsReservedName_def
      to_lower_def is_digit_def Let_def draw_def generateFileHash_def getFolderPath_def
      or_else_def startsWith_def getMetadata_def sharp_read_metadata_def toy_extname_def
      toy_basename_def example_defs show_nat.simps)

text \<open>
  C6. Folder paths are resolved from the stored paths, with the root as default: a file
  formatted with no folder id has \<open>folderPath\<close> \<open>/\<close>; a folder created with no
  parent has the path \<open>/\<close> followed by its name; a folder created under a stored
  parent has the parent's stored path, \<open>/\<close>, and its name; creation appends the
  row and touches no other row, and the row is then the one found under its id; and a
  file formatted with the id of a stored folder has that folder's stored path as its
  \<open>folderPath\<close> (the id and the path being non-empty, as generated ids and
  created paths are, and the lookup not failing).
\<close>

theorem folder_path_resolution:
  fixes w :: "'b world"
  shows
  "(formatFileInfo E file fi fo tmp w = (Inr ent, w') \<and> \<not> truthy (or_else (folder_fi fi) fo)
      \<longrightarrow> folderPath ent = Some ''/'')
   \<and> (createFolder E n None w = (Inr A, wA) \<longrightarrow> path_d A = ''/'' @ n)
   \<and> (pid \<noteq> [] \<and> getFolder E pid w = (Inr (Some P), w)
        \<and> createFolder E n (Some pid) w = (Inr B, wB)
      \<longrightarrow> path_d B = path_d P @ ''/'' @ n)
   \<and> (createFolder E n par w = (Inr B, wB)
      \<longrightarrow> folders wB = folders w @ [B\<lparr>parent_d := par\<rparr>]
          \<and> find (\<lambda>f. id_d f = id_d B) (folders wB) = Some (B\<lparr>parent_d := par\<rparr>))
   \<and> (find (\<lambda>f. id_d f = i) (folders w) = Some F \<and> i \<noteq> [] \<and> path_d F \<noteq> []
        \<and> prisma_fault E (Folder_findUnique i) = None
        \<and> or_else (folder_fi fi) fo = Some i
        \<and> formatFileInfo E file fi fo tmp w = (Inr ent, w')
      \<longrightarrow> folderPath ent = Some (path_d F))"
proof (intro conjI impI)
  assume "formatFileInfo E file fi fo tmp w = (Inr ent, w') \<and> \<not> truthy (or_else (folder_fi fi) fo)"
  then show "folderPath ent = Some ''/''"
    using formatFileInfo_folderPath getFolderPath_absent by (metis fst_conv)
next
  assume "createFolder E n None w = (Inr A, wA)"
  then show "path_d A = ''/'' @ n" by (rule createFolder_root_path)
next
  assume "pid \<noteq> [] \<and> getFolder E pid w = (Inr (Some P), w)
        \<and> createFolder E n (Some pid) w = (Inr B, wB)"
  then show "path_d B = path_d P @ ''/'' @ n" using createFolder_child_path by blast
next
  assume a: "createFolder E n par w = (Inr B, wB)"
  then show "folders wB = folders w @ [B\<lparr>parent_d := par\<rparr>]" using createFolder_row by blast
  from createFolder_row [OF a]
  show "find (\<lambda>f. id_d f = id_d B) (folders wB) = Some (B\<lparr>parent_d := par\<rparr>)"
    by (simp add: find_append_new)
next
  assume a: "find (\<lambda>f. id_d f = i) (folders w) = Some F \<and> i \<noteq> [] \<and> path_d F \<noteq> []
        \<and> prisma_fault E (Folder_findUnique i) = None
        \<and> or_else (folder_fi fi) fo = Some i
        \<and> formatFileInfo E file fi fo tmp w = (Inr ent, w')"
  then have "getFolderPath E (Some i) w = (path_d F, w)" using getFolderPath_stored by blast
  with a show "folderPath ent = Some (path_d F)"
    using formatFileInfo_folderPath [of E "file" fi fo tmp w ent w'] by simp
qed

theorem folder_path_resolution_witness:
  "createFolder env0 ''pics'' (Some ''fA'') w0
     = (Inr folderP, w0\<lparr>folders := folders w0 @ [folderP], seed := 1\<rparr>)
   \<and> path_d folderP = path_d folderA @ ''/'' @ ''pics''
   \<and> formatFileInfo env0 photo no_info (Some ''r0'') None
        (w0\<lparr>folders := folders w0 @ [folderP], seed := 1\<rparr>)
     = (Inr photo_entity, w0\<lparr>folders := folders w0 @ [folderP], seed := 2\<rparr>)
   \<and> folderPath photo_entity = Some (path_d folderP)
   \<and> createFolder env0 ''media'' None w0
     = (Inr folderM, w0\<lparr>folders := folders w0 @ [folderM], seed := 1\<rparr>)
   \<and> path_d folderM = ''/'' @ ''media''
   \<and> formatFileInfo env0 photo no_info None None w0 = (Inr photo_root_entity, w0\<lparr>seed := 1\<rparr>)
   \<and> folderPath photo_root_entity = Some ''/''"
proof -
  let ?wB = "w0\<lparr>folders := folders w0 @ [folderP], seed := 1\<rparr>"
  let ?w' = "w0\<lparr>folders := folders w0 @ [folderP], seed := 2\<rparr>"
  let ?wM = "w0\<lparr>folders := folders w0 @ [folderM], seed := 1\<rparr>"
  have g: "''fA'' \<noteq> []" "getFolder env0 ''fA'' w0 = (Inr (Some folderA), w0)"
    by (simp_all add: getFolder_def prisma_folder_findUnique_def folder_of_row_def or_else_def
        example_defs)
  have f: "find (\<lambda>f. id_d f = ''r0'') (folders ?wB) = Some folderP" "''r0'' \<noteq> []"
    "path_d folderP \<noteq> []" "prisma_fault env0 (Folder_findUnique ''r0'') = None"
    "or_else (folder_fi no_info) (Some ''r0'') = Some ''r0''"
    by (simp_all add: or_else_def example_defs)
  have r: "\<not> truthy (or_else (folder_fi no_info) None)"
    by (simp add: or_else_def example_defs)
  have p: "path_d folderP = path_d folderA @ ''/'' @ ''pics''"
    using folder_path_resolution [of env0 photo no_info None None w0 photo_entity w0 "''pics''" folderA w0
        "''fA''" folderA folderP ?wB "Some ''fA''" "''r0''" folderP]
      g ex_createFolder by blast
  have q: "folderPath photo_entity = Some (path_d folderP)"
    using folder_path_resolution [of env0 photo no_info "Some ''r0''" None ?wB photo_entity ?w'
        "''pics''" folderA w0 "''fA''" folderA folderP ?wB "Some ''fA''" "''r0''" folderP]
      f ex_formatFileInfo by blast
  have m: "path_d folderM = ''/'' @ ''media''"
    using folder_path_resolution [of env0 photo no_info None None w0 photo_root_entity
        "w0\<lparr>seed := 1\<rparr>" "''media''" folderM ?wM]
      ex_createFolder_root by blast
  have n: "folderPath photo_root_entity = Some ''/''"
    using folder_path_resolution [of env0 photo no_info None None w0 photo_root_entity
        "w0\<lparr>seed := 1\<rparr>" "''media''" folderM ?wM]
      r ex_formatFileInfo_root by blast
  show ?thesis
    using p q m n ex_createFolder ex_formatFileInfo ex_createFolder_root ex_formatFileInfo_root
    by simp
qed

subsection \<open>File hashes\<close>

text \<open>
  C9. The hash is the basename, an underscore, and the random value with its dashes
  removed; \<open>formatFileInfo\<close> computes it from the entity's name and extension and
  the random draw alone, and no table of the store is an argument of
  \<open>generateFileHash\<close>. Two hashes with the same basename differ whenever the
  suffixes differ, and so whenever two random values of the shape of a UUID differ.
\<close>

theorem file_hash_construction:
  fixes w :: "'b world"
  shows
  "generateFileHash b u = b @ ''_'' @ filter (\<lambda>c. c \<noteq> CHR ''-'') u
   \<and> (uuid_shape u1 \<and> uuid_shape u2 \<and> u1 \<noteq> u2
        \<longrightarrow> generateFileHash b u1 \<noteq> generateFileHash b u2)
   \<and> (filter (\<lambda>c. c \<noteq> CHR ''-'') u1 \<noteq> filter (\<lambda>c. c \<noteq> CHR ''-'') u2
        \<longrightarrow> generateFileHash b u1 \<noteq> generateFileHash b u2)
   \<and> (formatFileInfo E file fi fo tmp w = (Inr ent, w')
        \<longrightarrow> hash ent
              = generateFileHash (path_basename E (name ent) (ext ent)) (entropy E (seed w)))"
proof -
  have "generateFileHash b u1 \<noteq> generateFileHash b u2"
    if "uuid_shape u1" "uuid_shape u2" "u1 \<noteq> u2"
  proof
    assume "generateFileHash b u1 = generateFileHash b u2"
    then have "filter (\<lambda>c. c \<noteq> CHR ''-'') u1 = filter (\<lambda>c. c \<noteq> CHR ''-'') u2"
      by (simp add: generateFileHash_def)
    moreover from that have "map (\<lambda>c. c = CHR ''-'') u1 = map (\<lambda>c. c = CHR ''-'') u2"
      by (simp add: uuid_shape_def)
    ultimately have "u1 = u2" by (rule mask_filter_inj [rotated])
    with that show False by simp
  qed
  then show ?thesis
    using formatFileInfo_hash [of E "file" fi fo tmp w ent w']
    by (auto simp: generateFileHash_def)
qed

theorem file_hash_construction_witness:
  "uuid_shape ''123e4567-e89b-42d3-a456-426614174000''
   \<and> uuid_shape ''123e4567-e89b-42d3-a456-426614174001''
   \<and> generateFileHash ''photo'' ''123e4567-e89b-42d3-a456-426614174000''
       = ''photo_123e4567e89b42d3a456426614174000''
   \<and> generateFileHash ''photo'' ''123e4567-e89b-42d3-a456-426614174000''
       \<noteq> generateFileHash ''photo'' ''123e4567-e89b-42d3-a456-426614174001''
   \<and> hash photo_root_entity
       = generateFileHash (path_basename env0 ''photo.png'' ''.png'') (entropy env0 (seed w0))"
proof -
  have s: "uuid_shape ''123e4567-e89b-42d3-a456-426614174000''"
    "uuid_shape ''123e4567-e89b-42d3-a456-426614174001''"
    "''123e4567-e89b-42d3-a456-426614174000'' \<noteq> ''123e4567-e89b-42d3-a456-426614174001''"
    by (simp_all add: uuid_shape_def)
  have h: "name photo_root_entity = ''photo.png''" "ext photo_root_entity = ''.png''"
    by (simp_all add: example_defs)
  have e: "generateFileHash ''photo'' ''123e4567-e89b-42d3-a456-426614174000''
       = ''photo_123e4567e89b42d3a456426614174000''"
    by (simp add: generateFileHash_def)
  note T = file_hash_construction [of "''photo''" "''123e4567-e89b-42d3-a456-426614174000''"
        "''123e4567-e89b-42d3-a456-426614174000''" "''123e4567-e89b-42d3-a456-426614174001''"
        env0 photo no_info None None w0 photo_root_entity "w0\<lparr>seed := 1\<rparr>"]
  have d: "generateFileHash ''photo'' ''123e4567-e89b-42d3-a456-426614174000''
       \<noteq> generateFileHash ''photo'' ''123e4567-e89b-42d3-a456-426614174001''"
    using T s by blast
  have k: "hash photo_root_entity
       = generateFileHash (path_basename env0 (name photo_root_entity) (ext photo_root_entity))
           (entropy env0 (seed w0))"
    using T ex_formatFileInfo_root by blast
  show ?thesis
    using s(1,2) e d k [unfolded h] by (intro conjI)
qed

subsection \<open>Responsive images\<close>

lemma ex_breakpoints:
  "breakpoint_result env_strict photo_root_entity w0 200
     = Inr ([200, 200, 0, 0, 0, 0, 0], \<lparr>width_i = 200, height_i = 200, size_i = 7\<rparr>)"
  "breakpoint_result env_strict photo_root_entity w0 480
     = Inl (Error ''Image is narrower than the requested width'')"
  by (simp_all add: breakpoint_result_def image_defs example_defs)

text \<open>
  C3 (as amended). \<open>generateResponsiveImages\<close> returns a map and a state for
  every file and every list of breakpoints, so it never raises. The keys of the map
  are the labels of exactly the breakpoints whose resize succeeded, each entry is the
  output of the resize of a breakpoint with that label, and the state differs from the
  one before only by one warning in the log for each breakpoint whose resize failed:
  a failure is caught, logged and skipped, and the breakpoints after it are still
  tried. Without a list the configured breakpoints are used. The function compares
  no widths itself; which breakpoints of a narrow source are skipped is what the image
  library's resize decides.
\<close>

theorem generateResponsiveImages_partial:
  fixes w :: "'b world"
  shows
  "fst ` set (fst (generateResponsiveImages E file (Some bps) w))
     = breakpoint_key ` {bp \<in> set bps. fulfilled (breakpoint_result E file w bp)}
   \<and> (\<forall>kv \<in> set (fst (generateResponsiveImages E file (Some bps) w)).
         \<exists>bp \<in> set bps. fst kv = breakpoint_key bp \<and> breakpoint_result E file w bp = Inr (snd kv))
   \<and> snd (generateResponsiveImages E file (Some bps) w)
     = w\<lparr>logs := logs w @ replicate (length (filter (\<lambda>bp. rejected (breakpoint_result E file w bp)) bps))
                     (Warn, ''ImageProcessingService'', ''Failed to generate responsive image'')\<rparr>
   \<and> generateResponsiveImages E file None w
     = generateResponsiveImages E file (Some (RESPONSIVE_BREAKPOINTS E)) w"
  using loop_keys [of E "file" bps "[]" w] loop_values [of _ E "file" bps "[]" w]
    loop_world [of E "file" bps "[]" w]
  by (auto simp: generateResponsiveImages_def)

theorem generateResponsiveImages_partial_witness:
  "fst ` set (fst (generateResponsiveImages env_strict photo_root_entity (Some [200, 480]) w0))
     = {''w200''}
   \<and> snd (generateResponsiveImages env_strict photo_root_entity (Some [200, 480]) w0)
     = w0\<lparr>logs := [(Warn, ''ImageProcessingService'', ''Failed to generate responsive image'')]\<rparr>"
proof -
  have l: "logs w0 = []" by (simp add: example_defs)
  have k: "breakpoint_key 200 = ''w200''" by (simp add: breakpoint_key_def show_nat.simps)
  have s: "{bp \<in> set [200, 480 :: nat]. fulfilled (breakpoint_result env_strict photo_root_entity w0 bp)} = {200}"
    by (auto simp: ex_breakpoints)
  note T = generateResponsiveImages_partial [of env_strict photo_root_entity "[200, 480]" w0]
  from T have "fst ` set (fst (generateResponsiveImages env_strict photo_root_entity (Some [200, 480]) w0))
     = breakpoint_key ` {bp \<in> set [200, 480]. fulfilled (breakpoint_result env_strict photo_root_entity w0 bp)}"
    by (rule conjunct1)
  then have A: "fst ` set (fst (generateResponsiveImages env_strict photo_root_entity (Some [200, 480]) w0))
     = {''w200''}"
    by (simp only: s image_insert image_empty k)
  from T have "snd (generateResponsiveImages env_strict photo_root_entity (Some [200, 480]) w0)
     = w0\<lparr>logs := logs w0 @ replicate (length (filter (\<lambda>bp. rejected (breakpoint_result env_strict photo_root_entity w0 bp)) [200, 480]))
                     (Warn, ''ImageProcessingService'', ''Failed to generate responsive image'')\<rparr>"
    by (rule conjunct2 [THEN conjunct2, THEN conjunct1])
  then have B: "snd (generateResponsiveImages env_strict photo_root_entity (Some [200, 480]) w0)
     = w0\<lparr>logs := [(Warn, ''ImageProcessingService'', ''Failed to generate responsive image'')]\<rparr>"
    by (simp add: ex_breakpoints l)
  from A B show ?thesis by (rule conjI)
qed

text \<open>
  The claim as it was written fails: with the breakpoints 480, 768, 1024 and 1920, a
  source 300 pixels wide and a library that leaves a narrower source unenlarged, no
  breakpoint is skipped and the map has all four labels, each with an image 300 wide.
\<close>

theorem generateResponsiveImages_narrow_source:
  "sharp_read_metadata env0 w0 ''/uploads/u1'' = Inr \<lparr>width_md = Some 300, height_md = Some 200\<rparr>
   \<and> filepath photo_root_entity = Some ''/uploads/u1''
   \<and> generateResponsiveImages env0 photo_root_entity (Some [480, 768, 1024, 1920]) w0
       = ([(''w480'', [300, 200, 0, 0, 0, 0, 0], \<lparr>width_i = 300, height_i = 200, size_i = 7\<rparr>),
           (''w768'', [300, 200, 0, 0, 0, 0, 0], \<lparr>width_i = 300, height_i = 200, size_i = 7\<rparr>),
           (''w1024'', [300, 200, 0, 0, 0, 0, 0], \<lparr>width_i = 300, height_i = 200, size_i = 7\<rparr>),
           (''w1920'', [300, 200, 0, 0, 0, 0, 0], \<lparr>width_i = 300, height_i = 200, size_i = 7\<rparr>)],
          w0)"
  by (simp add: sharp_read_metadata_def image_defs example_defs show_nat.simps)

subsection \<open>Optimisation\<close>

lemma ex_optimize:
  "optimizeImage env0 photo_root_entity None None None w0
     = Inr ([300, 200, 0, 0, 0, 0, 0, 0, 0, 0], \<lparr>width_i = 300, height_i = 200, size_i = 10\<rparr>)"
  "optimizeImage env0 gif_entity None None None w0
     = Inr ([300, 200, 0, 0, 0, 0, 0, 0, 0, 0], \<lparr>width_i = 300, height_i = 200, size_i = 10\<rparr>)"
  by (simp_all add: optimizeImage_def isOptimizableFormat_def FORMATS_TO_OPTIMIZE_def image_defs example_defs)

text \<open>
  C4 (as amended). \<open>optimizeImage\<close> returns what the image library yields for
  the file at \<open>filepath\<close>: for a format outside the optimizable set the
  library's output with no encoder chosen, and for each format of the set the output of
  that format's encoder with the requested quality (the configured one when none, or
  0, is requested) and, for jpeg and png, the progressive flag. Without a file path it
  is rejected. It compares no sizes and never returns the input itself.
\<close>

theorem optimizeImage_encoder:
  fixes w :: "'b world"
  shows
  "(\<not> truthy (filepath file)
      \<longrightarrow> optimizeImage E file q pr fmt w = Inl (Error ''File path is required for optimization''))
   \<and> (filepath file = Some p \<and> p \<noteq> []
        \<and> format = (if truthy fmt then the fmt else remove1 (CHR ''.'') (ext file))
        \<and> quality = (if positive q then the q else IMAGE_QUALITY E)
        \<and> progressive = (case pr of Some b \<Rightarrow> b | None \<Rightarrow> IMAGE_PROGRESSIVE E)
      \<longrightarrow> (\<not> isOptimizableFormat format
             \<longrightarrow> optimizeImage E file q pr fmt w = sharp_run E w p Plain)
        \<and> (format = ''jpeg''
             \<longrightarrow> optimizeImage E file q pr fmt w = sharp_run E w p (Encode (Jpeg quality progressive)))
        \<and> (format = ''png''
             \<longrightarrow> optimizeImage E file q pr fmt w = sharp_run E w p (Encode (Png quality progressive)))
        \<and> (format = ''webp''
             \<longrightarrow> optimizeImage E file q pr fmt w = sharp_run E w p (Encode (Webp quality)))
        \<and> (format = ''tiff''
             \<longrightarrow> optimizeImage E file q pr fmt w = sharp_run E w p (Encode (Tiff quality)))
        \<and> (format = ''avif''
             \<longrightarrow> optimizeImage E file q pr fmt w = sharp_run E w p (Encode (Avif quality))))"
  by (cases "filepath file"; cases q; cases fmt)
     (auto simp: optimizeImage_def Let_def positive_def isOptimizableFormat_def FORMATS_TO_OPTIMIZE_def)

theorem optimizeImage_encoder_witness:
  "sharp_run env0 w0 ''/uploads/u1'' (Encode (Png 80 True))
     = Inr ([300, 200, 0, 0, 0, 0, 0, 0, 0, 0], \<lparr>width_i = 300, height_i = 200, size_i = 10\<rparr>)
   \<and> sharp_run env0 w0 ''/uploads/u1'' Plain
     = Inr ([300, 200, 0, 0, 0, 0, 0, 0, 0, 0], \<lparr>width_i = 300, height_i = 200, size_i = 10\<rparr>)
   \<and> optimizeImage env0 (photo_root_entity\<lparr>filepath := None\<rparr>) None None None w0
     = Inl (Error ''File path is required for optimization'')"
proof -
  have a: "filepath photo_root_entity = Some ''/uploads/u1''" "''/uploads/u1'' \<noteq> []"
    "''png'' = (if truthy None then the None else remove1 (CHR ''.'') (ext photo_root_entity))"
    "80 = (if positive None then the None else IMAGE_QUALITY env0)"
    "True = (case None of Some b \<Rightarrow> b | None \<Rightarrow> IMAGE_PROGRESSIVE env0)"
    by (simp_all add: positive_def example_defs)
  have b: "filepath gif_entity = Some ''/uploads/u1''"
    "''gif'' = (if truthy None then the None else remove1 (CHR ''.'') (ext gif_entity))"
    "\<not> isOptimizableFormat ''gif''"
    by (simp_all add: isOptimizableFormat_def FORMATS_TO_OPTIMIZE_def example_defs)
  have c: "\<not> truthy (filepath (photo_root_entity\<lparr>filepath := None\<rparr>))" by simp
  have 1: "optimizeImage env0 photo_root_entity None None None w0
             = sharp_run env0 w0 ''/uploads/u1'' (Encode (Png 80 True))"
    using optimizeImage_encoder [of photo_root_entity env0 None None None w0 "''/uploads/u1''" "''png''" 80 True] a
    by blast
  have 2: "optimizeImage env0 gif_entity None None None w0 = sharp_run env0 w0 ''/uploads/u1'' Plain"
    using optimizeImage_encoder [of gif_entity env0 None None None w0 "''/uploads/u1''" "''gif''" 80 True] a b
    by blast
  have 3: "optimizeImage env0 (photo_root_entity\<lparr>filepath := None\<rparr>) None None None w0
     = Inl (Error ''File path is required for optimization'')"
    using optimizeImage_encoder [of "photo_root_entity\<lparr>filepath := None\<rparr>" env0 None None None w0] c
    by blast
  show ?thesis using 1 2 3 ex_optimize by (simp only: simp_thms)
qed

text \<open>
  The claim as it was written fails on both counts: a PNG of seven bytes is re-encoded
  to ten, and a GIF, whose format is outside the set, comes back as other bytes than
  went in.
\<close>

theorem optimizeImage_size_counterexample:
  "isOptimizableFormat (remove1 (CHR ''.'') (ext photo_root_entity))
   \<and> filepath photo_root_entity = Some ''/uploads/u1''
   \<and> map_of (disk w0) ''/uploads/u1'' = Some [300, 200, 0, 0, 0, 0, 0]
   \<and> size_f photo_root_entity = length [300 :: nat, 200, 0, 0, 0, 0, 0]
   \<and> optimizeImage env0 photo_root_entity None None None w0
       = Inr ([300, 200, 0, 0, 0, 0, 0, 0, 0, 0], \<lparr>width_i = 300, height_i = 200, size_i = 10\<rparr>)
   \<and> length [300 :: nat, 200, 0, 0, 0, 0, 0, 0, 0, 0] > length [300 :: nat, 200, 0, 0, 0, 0, 0]
   \<and> \<not> isOptimizableFormat (remove1 (CHR ''.'') (ext gif_entity))
   \<and> filepath gif_entity = Some ''/uploads/u1''
   \<and> optimizeImage env0 gif_entity None None None w0
       = Inr ([300, 200, 0, 0, 0, 0, 0, 0, 0, 0], \<lparr>width_i = 300, height_i = 200, size_i = 10\<rparr>)
   \<and> [300 :: nat, 200, 0, 0, 0, 0, 0, 0, 0, 0] \<noteq> [300, 200, 0, 0, 0, 0, 0]"
proof -
  have a: "isOptimizableFormat (remove1 (CHR ''.'') (ext photo_root_entity))"
    "\<not> isOptimizableFormat (remove1 (CHR ''.'') (ext gif_entity))"
    by (simp_all add: isOptimizableFormat_def FORMATS_TO_OPTIMIZE_def example_defs)
  have b: "filepath photo_root_entity = Some ''/uploads/u1''"
    "map_of (disk w0) ''/uploads/u1'' = Some [300, 200, 0, 0, 0, 0, 0]"
    "size_f photo_root_entity = length [300 :: nat, 200, 0, 0, 0, 0, 0]"
    "filepath gif_entity = Some ''/uploads/u1''"
    by (simp_all add: example_defs)
  have c: "length [300 :: nat, 200, 0, 0, 0, 0, 0, 0, 0, 0] > length [300 :: nat, 200, 0, 0, 0, 0, 0]"
    "[300 :: nat, 200, 0, 0, 0, 0, 0, 0, 0, 0] \<noteq> [300, 200, 0, 0, 0, 0, 0]"
    by simp_all
  show ?thesis
    using a b c ex_optimize by (intro conjI)
qed

subsection \<open>The size recorded by \<open>processImage\<close>\<close>

lemma ex_processImage:
  "processImage env0 large_entity no_responsive w0
     = (Inr large_processed, log Info ''ImageProcessingService'' ''Image processed successfully'' w0)"
  "processImage env0 gif_entity no_responsive w0
     = (Inr gif_processed, log Info ''ImageProcessingService'' ''Image processed successfully'' w0)"
  by (simp_all add: processImage_def startsWith_def FORMATS_TO_PROCESS_def isOptimizableFormat_def
      FORMATS_TO_OPTIMIZE_def generateThumbnail_def descriptor_def optimizeImage_def image_defs
      example_defs)

text \<open>
  C5. When \<open>processImage\<close> succeeds, a size is present in its result only if the
  format is optimizable and the optimized output is strictly smaller than the file's
  size, and then it is the size of that output; for a processed file of an optimizable
  format the size is present exactly when the output is smaller. So the size of the
  entity after \<^verbatim>\<open>Object.assign\<close> is at most the original size, and it is
  the original size when the format is not optimizable.
\<close>

theorem processImage_size:
  fixes w :: "'b world"
  shows
  "processImage E file opts w = (Inr r, w') \<longrightarrow>
     (\<forall>n. size_p r = Some n \<longrightarrow>
        n < size_f file
        \<and> isOptimizableFormat (remove1 (CHR ''.'') (ext file))
        \<and> (\<exists>out. optimizeImage E file (quality_po opts) (progressive_po opts) None w = Inr out
                 \<and> n = size_i (snd out)))
     \<and> (\<forall>out. formats_p r \<noteq> None \<and> isOptimizableFormat (remove1 (CHR ''.'') (ext file))
            \<and> optimizeImage E file (quality_po opts) (progressive_po opts) None w = Inr out
          \<longrightarrow> size_p r = (if size_i (snd out) < size_f file then Some (size_i (snd out)) else None))
     \<and> size_f (assign_processed file r) \<le> size_f file
     \<and> (\<not> isOptimizableFormat (remove1 (CHR ''.'') (ext file))
          \<longrightarrow> size_p r = None \<and> size_f (assign_processed file r) = size_f file)"
proof (intro impI)
  assume a: "processImage E file opts w = (Inr r, w')"
  note p = processImage_size_p [OF a]
  have s: "size_f (assign_processed file r) = (case size_p r of Some n \<Rightarrow> n | None \<Rightarrow> size_f file)"
    by (simp add: assign_processed_def Let_def split: option.splits)
  show "(\<forall>n. size_p r = Some n \<longrightarrow>
        n < size_f file
        \<and> isOptimizableFormat (remove1 (CHR ''.'') (ext file))
        \<and> (\<exists>out. optimizeImage E file (quality_po opts) (progressive_po opts) None w = Inr out
                 \<and> n = size_i (snd out)))
     \<and> (\<forall>out. formats_p r \<noteq> None \<and> isOptimizableFormat (remove1 (CHR ''.'') (ext file))
            \<and> optimizeImage E file (quality_po opts) (progressive_po opts) None w = Inr out
          \<longrightarrow> size_p r = (if size_i (snd out) < size_f file then Some (size_i (snd out)) else None))
     \<and> size_f (assign_processed file r) \<le> size_f file
     \<and> (\<not> isOptimizableFormat (remove1 (CHR ''.'') (ext file))
          \<longrightarrow> size_p r = None \<and> size_f (assign_processed file r) = size_f file)"
    using p processImage_unchanged [OF a] by (auto simp: s)
qed

theorem processImage_size_witness:
  "processImage env0 large_entity no_responsive w0
     = (Inr large_processed, log Info ''ImageProcessingService'' ''Image processed successfully'' w0)
   \<and> size_f large_entity = 12 \<and> size_p large_processed = Some 10
   \<and> size_f (assign_processed large_entity large_processed) \<le> size_f large_entity
   \<and> processImage env0 gif_entity no_responsive w0
     = (Inr gif_processed, log Info ''ImageProcessingService'' ''Image processed successfully'' w0)
   \<and> size_p gif_processed = None
   \<and> size_f (assign_processed gif_entity gif_processed) = size_f gif_entity"
proof -
  let ?l = "log Info ''ImageProcessingService'' ''Image processed successfully'' w0"
  have a: "size_f large_entity = 12" "size_p large_processed = Some 10"
    "\<not> isOptimizableFormat (remove1 (CHR ''.'') (ext gif_entity))"
    by (simp_all add: isOptimizableFormat_def FORMATS_TO_OPTIMIZE_def example_defs)
  have 1: "size_f (assign_processed large_entity large_processed) \<le> size_f large_entity"
    using processImage_size [of env0 large_entity no_responsive w0 large_processed ?l]
      ex_processImage(1) by blast
  have 2: "size_p gif_processed = None
     \<and> size_f (assign_processed gif_entity gif_processed) = size_f gif_entity"
    using processImage_size [of env0 gif_entity no_responsive w0 gif_processed ?l]
      ex_processImage(2) a(3) by blast
  show ?thesis using a(1,2) 1 2 ex_processImage by (intro conjI) simp_all
qed

subsection \<open>Deleting files\<close>

lemma ex_deleteFile:
  "deleteFile env0 bucket ''x1'' w0 = (Inr True, w_a)"
  "deleteFile env0 bucket ''y1'' w_a = (Inl (Error ''AccessDenied''), w_b)"
  "deleteFile env0 bucket ''z1'' w_b = (Inr True, w_c)"
  "deleteFile env0 bucket ''zz'' w0 = (Inl (Error ''File not found''), w0)"
  by (simp_all add: delete_defs example_defs w_a_def w_b_def w_c_def)

text \<open>
  C10. \<open>deleteFile\<close> never returns \<open>False\<close>. When the lookup fails, its
  error is the result; when no record has the id, the result is the error
  \<open>File not found\<close>; when the record exists, the result is the backend's error
  if the backend delete fails, the store's error if the metadata delete fails, and
  \<open>True\<close> only after both have succeeded. So the handler of
  \<^verbatim>\<open>DELETE /:id\<close> never answers 404: its branch for a false return is not
  reachable.
\<close>

theorem deleteFile_never_false:
  fixes w :: "'b world"
  shows
  "fst (deleteFile E P i w) \<noteq> Inr False
   \<and> status (fst (delete_handler E P i w)) \<noteq> 404
   \<and> (getFile E i w = (Inl e, w1) \<longrightarrow> deleteFile E P i w = (Inl e, w1))
   \<and> (getFile E i w = (Inr None, w1)
        \<longrightarrow> deleteFile E P i w = (Inl (Error ''File not found''), w1))
   \<and> (getFile E i w = (Inr (Some file), w1)
        \<and> StorageProviderService_delete P file w1 = (Inl e, w2)
        \<longrightarrow> deleteFile E P i w = (Inl e, log Failure ''UploadService'' ''Failed to delete file'' w2))
   \<and> (getFile E i w = (Inr (Some file), w1)
        \<and> StorageProviderService_delete P file w1 = (Inr u, w2)
        \<and> DatabaseService_deleteFile E i w2 = (Inl e, w3)
        \<longrightarrow> deleteFile E P i w = (Inl e, log Failure ''UploadService'' ''Failed to delete file'' w3))
   \<and> (getFile E i w = (Inr (Some file), w1)
        \<and> StorageProviderService_delete P file w1 = (Inr u, w2)
        \<and> DatabaseService_deleteFile E i w2 = (Inr b, w3)
        \<longrightarrow> deleteFile E P i w
              = (Inr True, log Info ''UploadService'' ''File deleted successfully'' w3))"
proof -
  have 1: "fst (deleteFile E P i w) \<noteq> Inr False"
    by (auto simp: deleteFile_def Let_def split: prod.splits sum.splits option.splits)
  then have 2: "status (fst (delete_handler E P i w)) \<noteq> 404"
    by (auto simp: delete_handler_def split: prod.splits sum.splits)
  show ?thesis
    using 1 2 by (auto simp: deleteFile_def Let_def)
qed

theorem deleteFile_never_false_witness:
  "deleteFile env0 bucket ''x1'' w0 = (Inr True, w_a)
   \<and> deleteFile env0 bucket ''y1'' w_a = (Inl (Error ''AccessDenied''), w_b)
   \<and> deleteFile env0 bucket ''zz'' w0 = (Inl (Error ''File not found''), w0)
   \<and> status (fst (delete_handler env0 bucket ''zz'' w0)) = 400"
proof -
  have g: "getFile env0 ''x1'' w0 = (Inr (Some fileX), w0)"
    "StorageProviderService_delete bucket fileX w0
       = (Inr (), w0\<lparr>backend := [(''/dog_0b.png'', True), (''/owl_0c.png'', False)]\<rparr>)"
    "DatabaseService_deleteFile env0 ''x1''
         (w0\<lparr>backend := [(''/dog_0b.png'', True), (''/owl_0c.png'', False)]\<rparr>)
       = (Inr True, w0\<lparr>files := [fileY, fileZ],
            backend := [(''/dog_0b.png'', True), (''/owl_0c.png'', False)]\<rparr>)"
    "getFile env0 ''y1'' w_a = (Inr (Some fileY), w_a)"
    "StorageProviderService_delete bucket fileY w_a = (Inl (Error ''AccessDenied''), w_a)"
    "getFile env0 ''zz'' w0 = (Inr None, w0)"
    by (simp_all add: delete_defs example_defs w_a_def)
  have l: "log Info ''UploadService'' ''File deleted successfully''
             (w0\<lparr>files := [fileY, fileZ],
                 backend := [(''/dog_0b.png'', True), (''/owl_0c.png'', False)]\<rparr>) = w_a"
    "log Failure ''UploadService'' ''Failed to delete file'' w_a = w_b"
    by (simp_all add: log_def w_a_def w_b_def example_defs)
  have 1: "deleteFile env0 bucket ''x1'' w0 = (Inr True, w_a)"
    using deleteFile_never_false [of env0 bucket "''x1''" w0 _ _ fileX _ "()" _ True] g(1-3)
    unfolding l [symmetric] by blast
  have 2: "deleteFile env0 bucket ''y1'' w_a = (Inl (Error ''AccessDenied''), w_b)"
    using deleteFile_never_false [of env0 bucket "''y1''" w_a "Error ''AccessDenied''" w_a fileY w_a] g(4,5)
    unfolding l [symmetric] by blast
  have 3: "deleteFile env0 bucket ''zz'' w0 = (Inl (Error ''File not found''), w0)"
    using deleteFile_never_false [of env0 bucket "''zz''" w0 _ w0] g(6) by blast
  have 4: "status (fst (delete_handler env0 bucket ''zz'' w0)) = 400"
    by (simp add: delete_handler_def 3)
  show ?thesis using 1 2 3 4 by (intro conjI)
qed

text \<open>
  C7. For a non-empty list of ids the bulk delete handler answers 200 with the counts
  of the fulfilled and of the rejected deletions, which add up to the number of ids:
  there is one outcome for each id, and the outcomes of a list are those of its front
  part followed by those of its rest run from the state the front part leaves, so a
  rejected deletion does not cancel the ones after it. For three ids of which the
  second deletion is rejected and the others are fulfilled -- indeed for three ids of
  which exactly one deletion is rejected -- the counts are 2, 1 and 3. The deletions
  are run one after the other here; the counts do not depend on that order.
\<close>

theorem bulk_delete_counts:
  fixes w :: "'b world"
  shows
  "(ids \<noteq> [] \<and> allSettled_deleteFile E P ids w = (rs, w1)
      \<longrightarrow> length rs = length ids
        \<and> length (filter fulfilled rs) + length (filter rejected rs) = length ids
        \<and> bulk_delete_handler E P (Some ids) w =
             (\<lparr>status = 200, success = True,
               data = Some \<lparr>successful = length (filter fulfilled rs),
                            failed = length (filter rejected rs), total = length ids\<rparr>,
               error_msg = None,
               message_txt = Some (''Bulk delete completed: ''
                  @ show_nat (length (filter fulfilled rs)) @ '' successful, ''
                  @ show_nat (length (filter rejected rs)) @ '' failed'')\<rparr>, w1))
   \<and> (deleteFile E P a w = (Inr ra, wa) \<and> deleteFile E P b wa = (Inl eb, wb)
        \<and> deleteFile E P c wb = (Inr rc, wc)
      \<longrightarrow> status (fst (bulk_delete_handler E P (Some [a, b, c]) w)) = 200
        \<and> data (fst (bulk_delete_handler E P (Some [a, b, c]) w))
             = Some \<lparr>successful = 2, failed = 1, total = 3\<rparr>
        \<and> snd (bulk_delete_handler E P (Some [a, b, c]) w) = wc)
   \<and> (allSettled_deleteFile E P [a, b, c] w = (rs, w1) \<and> length (filter rejected rs) = 1
      \<longrightarrow> data (fst (bulk_delete_handler E P (Some [a, b, c]) w))
             = Some \<lparr>successful = 2, failed = 1, total = 3\<rparr>)
   \<and> allSettled_deleteFile E P (ids1 @ ids2) w =
       (case allSettled_deleteFile E P ids1 w of
          (rs1, w1) \<Rightarrow>
            (case allSettled_deleteFile E P ids2 w1 of (rs2, w2) \<Rightarrow> (rs1 @ rs2, w2)))"
proof (intro conjI impI)
  assume a: "ids \<noteq> [] \<and> allSettled_deleteFile E P ids w = (rs, w1)"
  then show l: "length rs = length ids" using allSettled_length [of E P ids w] by simp
  then show "length (filter fulfilled rs) + length (filter rejected rs) = length ids"
    using settled_count [of rs] by simp
  from a show "bulk_delete_handler E P (Some ids) w =
             (\<lparr>status = 200, success = True,
               data = Some \<lparr>successful = length (filter fulfilled rs),
                            failed = length (filter rejected rs), total = length ids\<rparr>,
               error_msg = None,
               message_txt = Some (''Bulk delete completed: ''
                  @ show_nat (length (filter fulfilled rs)) @ '' successful, ''
                  @ show_nat (length (filter rejected rs)) @ '' failed'')\<rparr>, w1)"
    by (simp add: bulk_delete_handler_def Let_def)
next
  assume "deleteFile E P a w = (Inr ra, wa) \<and> deleteFile E P b wa = (Inl eb, wb)
        \<and> deleteFile E P c wb = (Inr rc, wc)"
  then have s: "allSettled_deleteFile E P [a, b, c] w = ([Inr ra, Inl eb, Inr rc], wc)"
    by simp
  show "status (fst (bulk_delete_handler E P (Some [a, b, c]) w)) = 200"
    "data (fst (bulk_delete_handler E P (Some [a, b, c]) w))
             = Some \<lparr>successful = 2, failed = 1, total = 3\<rparr>"
    "snd (bulk_delete_handler E P (Some [a, b, c]) w) = wc"
    by (simp_all add: bulk_delete_handler_def Let_def s del: allSettled_deleteFile.simps)
next
  assume a: "allSettled_deleteFile E P [a, b, c] w = (rs, w1) \<and> length (filter rejected rs) = 1"
  then have "length rs = 3" using allSettled_length [of E P "[a, b, c]" w] by simp
  with a settled_count [of rs] have "length (filter fulfilled rs) = 2" by simp
  with a show "data (fst (bulk_delete_handler E P (Some [a, b, c]) w))
             = Some \<lparr>successful = 2, failed = 1, total = 3\<rparr>"
    by (simp add: bulk_delete_handler_def Let_def del: allSettled_deleteFile.simps)
next
  show "allSettled_deleteFile E P (ids1 @ ids2) w =
       (case allSettled_deleteFile E P ids1 w of
          (rs1, w1) \<Rightarrow>
            (case allSettled_deleteFile E P ids2 w1 of (rs2, w2) \<Rightarrow> (rs1 @ rs2, w2)))"
    by (rule allSettled_append)
qed

theorem bulk_delete_counts_witness:
  "deleteFile env0 bucket ''x1'' w0 = (Inr True, w_a)
   \<and> deleteFile env0 bucket ''y1'' w_a = (Inl (Error ''AccessDenied''), w_b)
   \<and> deleteFile env0 bucket ''z1'' w_b = (Inr True, w_c)
   \<and> status (fst (bulk_delete_handler env0 bucket (Some [''x1'', ''y1'', ''z1'']) w0)) = 200
   \<and> data (fst (bulk_delete_handler env0 bucket (Some [''x1'', ''y1'', ''z1'']) w0))
       = Some \<lparr>successful = 2, failed = 1, total = 3\<rparr>
   \<and> files (snd (bulk_delete_handler env0 bucket (Some [''x1'', ''y1'', ''z1'']) w0)) = [fileY]"
proof -
  note T = bulk_delete_counts [of "[''x1'', ''y1'', ''z1'']" env0 bucket w0
      "[Inr True, Inl (Error ''AccessDenied''), Inr True]" w_c
      "''x1''" True w_a "''y1''" "Error ''AccessDenied''" w_b "''z1''" True w_c]
  have "status (fst (bulk_delete_handler env0 bucket (Some [''x1'', ''y1'', ''z1'']) w0)) = 200
        \<and> data (fst (bulk_delete_handler env0 bucket (Some [''x1'', ''y1'', ''z1'']) w0))
             = Some \<lparr>successful = 2, failed = 1, total = 3\<rparr>
        \<and> snd (bulk_delete_handler env0 bucket (Some [''x1'', ''y1'', ''z1'']) w0) = w_c"
    using T ex_deleteFile(1-3) by blast
  moreover have "files w_c = [fileY]" by (simp add: w_c_def)
  ultimately show ?thesis using ex_deleteFile(1-3) by simp
qed

subsection \<open>Batches\<close>

lemma ex_tmp:
  "createTmpWorkingDirectory env0 w0 = (Inr tmp0, w_1)"
  "createTmpWorkingDirectory env_busy w0 = (Inr tmp0, w_1)"
  by (simp_all add: createTmpWorkingDirectory_def draw_def Let_def show_nat.simps example_defs)

lemma ex_body_photo:
  "uploadFiles_body env0 bucket no_info None no_responsive no_validation tmp0 photo w_1
     = (Inr photo_saved, w_2)"
  by (simp add: upload_defs image_defs example_defs)

lemma ex_body_memo:
  "uploadFiles_body env0 bucket no_info None no_responsive no_validation tmp0 memo w
     = (Inl (Error ''File type text/plain is not allowed''), w)"
  "uploadFiles_body env_busy bucket no_info None no_responsive no_validation tmp0 memo w
     = (Inl (Error ''File type text/plain is not allowed''), w)"
  by (simp_all add: uploadFiles_body_def validateFile_def Let_def example_defs)

text \<open>
  C1. A batch is fail-fast. When the files before some file are uploaded and saved and
  the pipeline of that file raises an error, \<open>uploadFiles\<close> is rejected with
  that same error, whatever files follow: they are not processed. Nothing is rolled
  back: the file table afterwards is the table before followed by the entities saved
  for the earlier files, the backend is as the failing pipeline left it, and the
  provider's \<open>delete\<close> has no part in the outcome (any other \<open>delete\<close> gives
  the same).
\<close>

theorem uploadFiles_fail_fast:
  fixes w :: "'b world"
  shows
  "createTmpWorkingDirectory E w = (Inr tmp, w1)
   \<and> uploadFiles_loop E P fi fo po vo tmp pre [] w1 = (Inr saved, w2)
   \<and> uploadFiles_body E P fi fo po vo tmp f w2 = (Inl e, w3)
   \<longrightarrow> uploadFiles E P (pre @ f # post) fi fo po vo w
         = (Inl e, uploadFiles_cleanup E tmp (log Failure ''UploadService'' ''Upload failed'' w3))
     \<and> files (snd (uploadFiles E P (pre @ f # post) fi fo po vo w)) = files w @ saved
     \<and> backend (snd (uploadFiles E P (pre @ f # post) fi fo po vo w)) = backend w3
     \<and> uploadFiles E (P\<lparr>delete := d\<rparr>) (pre @ f # post) fi fo po vo w
         = uploadFiles E P (pre @ f # post) fi fo po vo w"
proof (intro impI)
  assume a: "createTmpWorkingDirectory E w = (Inr tmp, w1)
   \<and> uploadFiles_loop E P fi fo po vo tmp pre [] w1 = (Inr saved, w2)
   \<and> uploadFiles_body E P fi fo po vo tmp f w2 = (Inl e, w3)"
  then have l: "uploadFiles_loop E P fi fo po vo tmp (pre @ f # post) [] w1 = (Inl e, w3)"
    by (simp add: loop_append)
  with a have u: "uploadFiles E P (pre @ f # post) fi fo po vo w
         = (Inl e, uploadFiles_cleanup E tmp (log Failure ''UploadService'' ''Upload failed'' w3))"
    by (simp add: uploadFiles_def)
  from a createTmp_store [of E w] have 1: "files w1 = files w" by simp
  from a loop_ok [of E P fi fo po vo tmp pre "[]" w1 saved w2] have 2: "files w2 = files w1 @ saved" by auto
  from a body_store [of E P fi fo po vo tmp f w2] have 3: "files w3 = files w2" by simp
  have 4: "uploadFiles E (P\<lparr>delete := d\<rparr>) (pre @ f # post) fi fo po vo w
         = uploadFiles E P (pre @ f # post) fi fo po vo w"
    unfolding uploadFiles_def loop_delete ..
  show "uploadFiles E P (pre @ f # post) fi fo po vo w
         = (Inl e, uploadFiles_cleanup E tmp (log Failure ''UploadService'' ''Upload failed'' w3))
     \<and> files (snd (uploadFiles E P (pre @ f # post) fi fo po vo w)) = files w @ saved
     \<and> backend (snd (uploadFiles E P (pre @ f # post) fi fo po vo w)) = backend w3
     \<and> uploadFiles E (P\<lparr>delete := d\<rparr>) (pre @ f # post) fi fo po vo w
         = uploadFiles E P (pre @ f # post) fi fo po vo w"
    using u 1 2 3 4 by simp
qed

theorem uploadFiles_fail_fast_witness:
  "uploadFiles env0 bucket [photo, memo] no_info None no_responsive no_validation w0
     = (Inl (Error ''File type text/plain is not allowed''),
        w_2\<lparr>dirs := [], logs := logs w_2 @ [(Failure, ''UploadService'', ''Upload failed'')]\<rparr>)
   \<and> files (snd (uploadFiles env0 bucket [photo, memo] no_info None no_responsive no_validation w0))
       = files w0 @ [photo_saved]
   \<and> backend (snd (uploadFiles env0 bucket [photo, memo] no_info None no_responsive
                      no_validation w0))
       = backend w0 @ [(''/photo_r1.png'', False)]"
proof -
  have l: "uploadFiles_loop env0 bucket no_info None no_responsive no_validation tmp0 [photo] [] w_1
             = (Inr [photo_saved], w_2)"
    by (simp add: ex_body_photo)
  have c: "uploadFiles_cleanup env0 tmp0 (log Failure ''UploadService'' ''Upload failed'' w_2)
             = w_2\<lparr>dirs := [], logs := logs w_2 @ [(Failure, ''UploadService'', ''Upload failed'')]\<rparr>"
    by (simp add: uploadFiles_cleanup_def fse_remove_def log_def example_defs)
  have b: "backend w_2 = backend w0 @ [(''/photo_r1.png'', False)]"
    by (simp add: w_2_def)
  note T = uploadFiles_fail_fast [of env0 w0 tmp0 w_1 bucket no_info None no_responsive
      no_validation "[photo]" "[photo_saved]" w_2 memo "Error ''File type text/plain is not allowed''"
      w_2 "[]" bucket_delete]
  from T ex_tmp(1) l ex_body_memo(1) [of w_2]
  have "uploadFiles env0 bucket ([photo] @ memo # []) no_info None no_responsive no_validation w0
         = (Inl (Error ''File type text/plain is not allowed''),
            uploadFiles_cleanup env0 tmp0 (log Failure ''UploadService'' ''Upload failed'' w_2))
     \<and> files (snd (uploadFiles env0 bucket ([photo] @ memo # []) no_info None no_responsive no_validation w0))
         = files w0 @ [photo_saved]
     \<and> backend (snd (uploadFiles env0 bucket ([photo] @ memo # []) no_info None no_responsive no_validation w0))
         = backend w_2"
    by blast
  then show ?thesis unfolding c b append_Cons append_Nil .
qed

text \<open>
  C2. Once the working directory is made, \<open>uploadFiles\<close> tries to remove it on
  every path. The outcome of the call is the outcome of the loop, fulfilled or
  rejected, whether or not the removal succeeds. When the removal succeeds the
  directory is gone afterwards; when it fails, a warning is logged and nothing else
  happens. When the directory cannot be made, the call is rejected with that error
  and no directory is left.
\<close>

theorem uploadFiles_cleanup_always:
  fixes w :: "'b world"
  shows
  "(createTmpWorkingDirectory E w = (Inr tmp, w1)
     \<and> uploadFiles_loop E P fi fo po vo tmp fs [] w1 = (res, w2)
    \<longrightarrow> tmp \<noteq> [] \<and> tmp \<in> set (dirs w1)
      \<and> fst (uploadFiles E P fs fi fo po vo w) = res
      \<and> (remove_fault E tmp = None
            \<longrightarrow> tmp \<notin> set (dirs (snd (uploadFiles E P fs fi fo po vo w))))
      \<and> (\<forall>x. remove_fault E tmp = Some x
            \<longrightarrow> snd (uploadFiles E P fs fi fo po vo w)
                 = log Warn ''UploadService'' ''Failed to clean up tmp directory''
                     (case res of
                        Inl e \<Rightarrow> log Failure ''UploadService'' ''Upload failed'' w2
                      | Inr ups \<Rightarrow> w2)))
   \<and> (createTmpWorkingDirectory E w = (Inl e, w1)
        \<longrightarrow> uploadFiles E P fs fi fo po vo w = (Inl e, w1) \<and> dirs w1 = dirs w)"
  by (cases res)
     (auto simp: uploadFiles_def uploadFiles_cleanup_def fse_remove_def createTmpWorkingDirectory_def
        draw_def Let_def log_def split: option.splits)

theorem uploadFiles_cleanup_always_witness:
  "fst (uploadFiles env0 bucket [memo] no_info None no_responsive no_validation w0)
     = Inl (Error ''File type text/plain is not allowed'')
   \<and> tmp0 \<in> set (dirs w_1)
   \<and> tmp0 \<notin> set (dirs (snd (uploadFiles env0 bucket [memo] no_info None no_responsive
                              no_validation w0)))
   \<and> fst (uploadFiles env0 bucket [] no_info None no_responsive no_validation w0) = Inr []
   \<and> tmp0 \<notin> set (dirs (snd (uploadFiles env0 bucket [] no_info None no_responsive
                              no_validation w0)))
   \<and> fst (uploadFiles env_busy bucket [memo] no_info None no_responsive no_validation w0)
     = Inl (Error ''File type text/plain is not allowed'')
   \<and> snd (uploadFiles env_busy bucket [memo] no_info None no_responsive no_validation w0)
     = log Warn ''UploadService'' ''Failed to clean up tmp directory''
         (log Failure ''UploadService'' ''Upload failed'' w_1)"
proof -
  have l: "uploadFiles_loop env0 bucket no_info None no_responsive no_validation tmp0 [memo] [] w_1
             = (Inl (Error ''File type text/plain is not allowed''), w_1)"
    "uploadFiles_loop env0 bucket no_info None no_responsive no_validation tmp0 [] [] w_1
             = (Inr [], w_1)"
    "uploadFiles_loop env_busy bucket no_info None no_responsive no_validation tmp0 [memo] [] w_1
             = (Inl (Error ''File type text/plain is not allowed''), w_1)"
    by (simp_all add: ex_body_memo)
  have r: "remove_fault env0 tmp0 = None" "remove_fault env_busy tmp0 = Some (Error ''EBUSY'')"
    by (simp_all add: example_defs)
  note A = uploadFiles_cleanup_always [of env0 w0 tmp0 w_1 bucket no_info None no_responsive
      no_validation "[memo]" "Inl (Error ''File type text/plain is not allowed'')" w_1]
  note B = uploadFiles_cleanup_always [of env0 w0 tmp0 w_1 bucket no_info None no_responsive
      no_validation "[]" "Inr []" w_1]
  note C = uploadFiles_cleanup_always [of env_busy w0 tmp0 w_1 bucket no_info None no_responsive
      no_validation "[memo]" "Inl (Error ''File type text/plain is not allowed'')" w_1]
  from A ex_tmp(1) l(1) r(1)
  have 1: "fst (uploadFiles env0 bucket [memo] no_info None no_responsive no_validation w0)
     = Inl (Error ''File type text/plain is not allowed'')"
    "tmp0 \<in> set (dirs w_1)"
    "tmp0 \<notin> set (dirs (snd (uploadFiles env0 bucket [memo] no_info None no_responsive
                              no_validation w0)))"
    by blast+
  from B ex_tmp(1) l(2) r(1)
  have 2: "fst (uploadFiles env0 bucket [] no_info None no_responsive no_validation w0) = Inr []"
    "tmp0 \<notin> set (dirs (snd (uploadFiles env0 bucket [] no_info None no_responsive
                              no_validation w0)))"
    by blast+
  from C ex_tmp(2) l(3) r(2)
  have 3: "fst (uploadFiles env_busy bucket [memo] no_info None no_responsive no_validation w0)
     = Inl (Error ''File type text/plain is not allowed'')"
    "snd (uploadFiles env_busy bucket [memo] no_info None no_responsive no_validation w0)
     = log Warn ''UploadService'' ''Failed to clean up tmp directory''
         (case (Inl (Error ''File type text/plain is not allowed'') :: error + uploadable list) of
            Inl e \<Rightarrow> log Failure ''UploadService'' ''Upload failed'' w_1
          | Inr ups \<Rightarrow> w_1)"
    by blast+
  from 1 2 3 show ?thesis by simp
qed

end
